theory Spec2Isabelle
  imports Complex_Main "HOL-Library.Stream" "HOL-Library.AList"
begin

section \<open>Python values\<close>

text \<open>
  The values a JSON request carries. Strings are lists of 8-bit characters. Floats are
  left out of the value universe.
\<close>

datatype pyval =
    PNone
  | PBool bool
  | PInt int
  | PStr string
  | PList "pyval list"
  | PDict "(string \<times> pyval) list"

type_synonym pydict = "string \<rightharpoonup> pyval"

text \<open>
  The exceptions the program raises or meets. \<^verbatim>\<open>RedisConnectionException\<close> is the
  program's own class, raised by \<^verbatim>\<open>RedisManager\<close>; \<^verbatim>\<open>RedisError\<close> is the class of the
  \<^verbatim>\<open>redis\<close> package, raised by the raw client of \<^verbatim>\<open>tasks.py\<close>; \<^verbatim>\<open>SMTPException\<close> is
  the class of \<^verbatim>\<open>smtplib\<close>.
\<close>

datatype py_exception =
    InvalidScheduleDataException string
  | RedisConnectionException string
  | AttributeError string
  | ValueError string
  | TypeError string
  | IndexError string
  | OverflowError string
  | RedisError string
  | SMTPException string

text \<open>\<^verbatim>\<open>str(e)\<close>: the message an exception carries.\<close>

fun str_of_exception :: "py_exception \<Rightarrow> string" where
  "str_of_exception (InvalidScheduleDataException m) = m"
| "str_of_exception (RedisConnectionException m) = m"
| "str_of_exception (AttributeError m) = m"
| "str_of_exception (ValueError m) = m"
| "str_of_exception (TypeError m) = m"
| "str_of_exception (IndexError m) = m"
| "str_of_exception (OverflowError m) = m"
| "str_of_exception (RedisError m) = m"
| "str_of_exception (SMTPException m) = m"

text \<open>Truth value testing, as \<^verbatim>\<open>if x:\<close> and \<^verbatim>\<open>not x\<close> do it.\<close>

fun truthy :: "pyval \<Rightarrow> bool" where
  "truthy PNone = False"
| "truthy (PBool b) = b"
| "truthy (PInt i) = (i \<noteq> 0)"
| "truthy (PStr s) = (s \<noteq> [])"
| "truthy (PList xs) = (xs \<noteq> [])"
| "truthy (PDict kvs) = (kvs \<noteq> [])"

text \<open>\<^verbatim>\<open>isinstance(x, int)\<close>: \<^verbatim>\<open>bool\<close> is a subclass of \<^verbatim>\<open>int\<close>.\<close>

fun isinstance_int :: "pyval \<Rightarrow> bool" where
  "isinstance_int (PInt _) = True"
| "isinstance_int (PBool _) = True"
| "isinstance_int _ = False"

fun int_value :: "pyval \<Rightarrow> int" where
  "int_value (PInt i) = i"
| "int_value (PBool b) = (if b then 1 else 0)"
| "int_value _ = 0"

text \<open>\<^verbatim>\<open>d.get(k)\<close> and \<^verbatim>\<open>d.get(k, default)\<close>.\<close>

definition py_get :: "pydict \<Rightarrow> string \<Rightarrow> pyval" where
  "py_get d k = (case d k of None \<Rightarrow> PNone | Some v \<Rightarrow> v)"

definition py_get_default :: "pydict \<Rightarrow> string \<Rightarrow> pyval \<Rightarrow> pyval" where
  "py_get_default d k dflt = (case d k of None \<Rightarrow> dflt | Some v \<Rightarrow> v)"

text \<open>
  \<^verbatim>\<open>str.isspace\<close> on one character, and \<^verbatim>\<open>str.strip()\<close>: among the 8-bit characters
  the whitespace is the ASCII whitespace, the separators 28 to 31, NEL (133) and the
  no-break space (160).
\<close>

definition py_isspace :: "char \<Rightarrow> bool" where
  "py_isspace ch = ((of_char ch :: nat) \<in> {9, 10, 11, 12, 13, 28, 29, 30, 31, 32, 133, 160})"

definition strip :: "string \<Rightarrow> string" where
  "strip s = rev (dropWhile py_isspace (rev (dropWhile py_isspace s)))"

text \<open>\<^verbatim>\<open>s.split(sep)\<close> for a one-character separator.\<close>

fun split_on :: "char \<Rightarrow> string \<Rightarrow> string list" where
  "split_on sep [] = [[]]"
| "split_on sep (ch # cs) =
     (if ch = sep then [] # split_on sep cs
      else (case split_on sep cs of
              [] \<Rightarrow> [[ch]]
            | p # ps \<Rightarrow> (ch # p) # ps))"

text \<open>\<^verbatim>\<open>type(x).__name__\<close>.\<close>

fun type_name :: "pyval \<Rightarrow> string" where
  "type_name PNone = ''NoneType''"
| "type_name (PBool _) = ''bool''"
| "type_name (PInt _) = ''int''"
| "type_name (PStr _) = ''str''"
| "type_name (PList _) = ''list''"
| "type_name (PDict _) = ''dict''"

text \<open>
  \<^verbatim>\<open>str(n)\<close> for an \<^verbatim>\<open>int\<close>: the decimal numeral. (The interpreter refuses to convert an
  \<^verbatim>\<open>int\<close> of more than 4300 digits to a string or back; the values of a request are taken
  to be below that size.)
\<close>

fun str_of_nat :: "nat \<Rightarrow> string" where
  "str_of_nat n =
     (if n < 10 then [''0123456789'' ! n]
      else str_of_nat (n div 10) @ [''0123456789'' ! (n mod 10)])"

declare str_of_nat.simps [simp del]

definition str_of_int :: "int \<Rightarrow> string" where
  "str_of_int i = (if i < 0 then ''-'' @ str_of_nat (nat (- i)) else str_of_nat (nat i))"

text \<open>
  \<^verbatim>\<open>repr(s)\<close> for a string. The quotes are single ones, unless the string holds a
  single quote and no double quote. A backslash and the quote in use are escaped by a
  backslash; tab, newline and carriage return are written \<^verbatim>\<open>\t\<close>, \<^verbatim>\<open>\n\<close>, \<^verbatim>\<open>\r\<close>; every
  other character that is not printable is written \<^verbatim>\<open>\xNN\<close>. Among the 8-bit characters
  the printable ones are 32 to 126 and 161 to 255 without the soft hyphen (173).
\<close>

definition repr_quote :: "string \<Rightarrow> char" where
  "repr_quote s = (if CHR 0x27 \<in> set s \<and> CHR 0x22 \<notin> set s then CHR 0x22 else CHR 0x27)"

definition is_printable :: "char \<Rightarrow> bool" where
  "is_printable ch =
     ((32 \<le> (of_char ch :: nat) \<and> (of_char ch :: nat) < 127)
      \<or> (161 \<le> (of_char ch :: nat) \<and> (of_char ch :: nat) \<noteq> 173))"

definition repr_char :: "char \<Rightarrow> char \<Rightarrow> string" where
  "repr_char quote ch =
     (if ch = quote \<or> ch = CHR 0x5C then [CHR 0x5C, ch]
      else if ch = CHR 0x09 then [CHR 0x5C, CHR ''t'']
      else if ch = CHR 0x0A then [CHR 0x5C, CHR ''n'']
      else if ch = CHR 0x0D then [CHR 0x5C, CHR ''r'']
      else if is_printable ch then [ch]
      else [CHR 0x5C, CHR ''x'',
            ''0123456789abcdef'' ! ((of_char ch :: nat) div 16),
            ''0123456789abcdef'' ! ((of_char ch :: nat) mod 16)])"

definition py_repr_str :: "string \<Rightarrow> string" where
  "py_repr_str s = [repr_quote s] @ concat (map (repr_char (repr_quote s)) s) @ [repr_quote s]"

text \<open>
  \<^verbatim>\<open>repr(x)\<close> and \<^verbatim>\<open>str(x)\<close> for a value: a list and a dictionary show their items
  by \<^verbatim>\<open>repr\<close>, separated by a comma and a space; \<^verbatim>\<open>str\<close> of a string is the string.
\<close>

fun join_comma :: "string list \<Rightarrow> string" where
  "join_comma [] = []"
| "join_comma [x] = x"
| "join_comma (x # y # zs) = x @ '', '' @ join_comma (y # zs)"

fun py_repr :: "pyval \<Rightarrow> string"
  and py_repr_items :: "pyval list \<Rightarrow> string list"
  and py_repr_pairs :: "(string \<times> pyval) list \<Rightarrow> string list" where
  "py_repr PNone = ''None''"
| "py_repr (PBool b) = (if b then ''True'' else ''False'')"
| "py_repr (PInt i) = str_of_int i"
| "py_repr (PStr s) = py_repr_str s"
| "py_repr (PList xs) = ''['' @ join_comma (py_repr_items xs) @ '']''"
| "py_repr (PDict kvs) = ''{'' @ join_comma (py_repr_pairs kvs) @ ''}''"
| "py_repr_items [] = []"
| "py_repr_items (x # xs) = py_repr x # py_repr_items xs"
| "py_repr_pairs [] = []"
| "py_repr_pairs (kv # kvs) = (py_repr_str (fst kv) @ '': '' @ py_repr (snd kv)) # py_repr_pairs kvs"

definition py_str :: "pyval \<Rightarrow> string" where
  "py_str x = (case x of PStr s \<Rightarrow> s | _ \<Rightarrow> py_repr x)"

text \<open>
  \<^verbatim>\<open>int(s)\<close> on a string, in base 10. The interpreter skips whitespace at both ends,
  reads one sign, and then scans the run of digits and underscores: the run must start
  and end with a digit and hold no two underscores in a row. A run of more than 4300
  digits is refused next; then anything left behind the run makes the literal invalid.
  The whitespace that \<^verbatim>\<open>int\<close> skips is not that of \<^verbatim>\<open>str.strip()\<close>: the interpreter turns
  a whitespace character above the ASCII range into a space, keeps every ASCII character
  as it is, and then skips ASCII whitespace only, so the separators 28 to 31 are not
  skipped and make the literal invalid. Both failures are \<^verbatim>\<open>ValueError\<close>; the message of
  an invalid literal shows the first 200 characters of \<^verbatim>\<open>repr(s)\<close>.
\<close>

definition int_isspace :: "char \<Rightarrow> bool" where
  "int_isspace ch = ((of_char ch :: nat) \<in> {9, 10, 11, 12, 13, 32, 133, 160})"

definition is_digit :: "char \<Rightarrow> bool" where
  "is_digit ch = (48 \<le> (of_char ch :: nat) \<and> (of_char ch :: nat) \<le> 57)"

fun no_double_underscore :: "string \<Rightarrow> bool" where
  "no_double_underscore (a # b # cs) =
     (\<not> (a = CHR ''_'' \<and> b = CHR ''_'') \<and> no_double_underscore (b # cs))"
| "no_double_underscore _ = True"

definition invalid_literal :: "string \<Rightarrow> py_exception" where
  "invalid_literal s =
     ValueError (''invalid literal for int() with base 10: '' @ take 200 (py_repr_str s))"

definition exceeds_limit :: "nat \<Rightarrow> py_exception" where
  "exceeds_limit digits =
     ValueError (''Exceeds the limit (4300 digits) for integer string conversion: value has ''
                 @ str_of_nat digits
                 @ '' digits; use sys.set_int_max_str_digits() to increase the limit'')"

definition int_of_str :: "string \<Rightarrow> py_exception + int" where
  "int_of_str s =
     (let stripped = rev (dropWhile int_isspace (rev (dropWhile int_isspace s)));
          negative = (stripped \<noteq> [] \<and> hd stripped = CHR ''-'');
          body = (if stripped \<noteq> [] \<and> (hd stripped = CHR ''-'' \<or> hd stripped = CHR ''+'')
                  then tl stripped else stripped);
          run = takeWhile (\<lambda>ch. is_digit ch \<or> ch = CHR ''_'') body;
          digits = filter is_digit run
      in if run = [] \<or> \<not> is_digit (hd run) \<or> \<not> is_digit (last run)
            \<or> \<not> no_double_underscore run
         then Inl (invalid_literal s)
         else if length digits > 4300 then Inl (exceeds_limit (length digits))
         else if run \<noteq> body then Inl (invalid_literal s)
         else Inr ((if negative then - 1 else 1)
                   * foldl (\<lambda>acc ch. acc * 10 + (int (of_char ch) - 48)) 0 digits))"

section \<open>Python floats\<close>

text \<open>
  A Python float is an IEEE 754 binary64 number: a finite value \<open>m * 2 ^ k\<close> with
  \<open>\<bar>m\<bar> < 2 ^ 53\<close> and \<open>- 1074 \<le> k \<le> 971\<close>, an infinity, or NaN. A finite float is
  kept as the real number it denotes.
\<close>

datatype float64 = Fin real | PInf | NInf | NaN

text \<open>
  Rounding to nearest, ties to even. \<open>binade x\<close> is the exponent \<open>e\<close> of the binade
  \<open>2 ^ e \<le> \<bar>x\<bar> < 2 ^ (e + 1)\<close> that holds \<open>x\<close>, not below \<open>- 1022\<close> (the subnormal range)
  and not above 1023; the floats of that binade are the multiples of
  \<open>ulp_at x = 2 ^ (e - 52)\<close>. \<open>round_finite\<close> picks the nearest multiple, the even one of
  two that are equally near. A real of magnitude \<open>2 ^ 1024 - 2 ^ 970\<close> or more, half a
  step beyond the largest float, rounds to an infinity.
\<close>

definition round_half_even :: "real \<Rightarrow> int" where
  "round_half_even y =
     (let f = \<lfloor>y\<rfloor>; d = y - of_int f
      in if d < 1 / 2 then f
         else if d > 1 / 2 then f + 1
         else if even f then f else f + 1)"

fun binade_below :: "nat \<Rightarrow> real \<Rightarrow> int" where
  "binade_below 0 x = - 1022"
| "binade_below (Suc k) x =
     (if 2 powi (int k - 1021) \<le> \<bar>x\<bar> then int k - 1021 else binade_below k x)"

definition binade :: "real \<Rightarrow> int" where
  "binade x = binade_below 2045 x"

definition ulp_at :: "real \<Rightarrow> real" where
  "ulp_at x = 2 powi (binade x - 52)"

definition round_finite :: "real \<Rightarrow> real" where
  "round_finite x = of_int (round_half_even (x / ulp_at x)) * ulp_at x"

text \<open>The largest float, and the least magnitude that rounds to an infinity.\<close>

definition max_float :: real where
  "max_float = (2 ^ 53 - 1) * 2 ^ 971"

definition overflow_threshold :: real where
  "overflow_threshold = 2 ^ 1024 - 2 ^ 970"

definition round64 :: "real \<Rightarrow> float64" where
  "round64 x =
     (if overflow_threshold \<le> \<bar>x\<bar> then (if 0 < x then PInf else NInf)
      else Fin (round_finite x))"
text \<open>
  The arithmetic of Python floats. \<^verbatim>\<open>+\<close>, \<^verbatim>\<open>-\<close>, \<^verbatim>\<open>*\<close> and \<^verbatim>\<open>/\<close> compute the exact result
  and round it; infinities and NaN follow IEEE 754. The sign of a zero is not kept: no
  function below can observe it.
\<close>

fun fneg :: "float64 \<Rightarrow> float64" where
  "fneg (Fin a) = Fin (- a)"
| "fneg PInf = NInf"
| "fneg NInf = PInf"
| "fneg NaN = NaN"

fun fadd :: "float64 \<Rightarrow> float64 \<Rightarrow> float64" where
  "fadd (Fin a) (Fin b) = round64 (a + b)"
| "fadd NaN _ = NaN"
| "fadd _ NaN = NaN"
| "fadd PInf NInf = NaN"
| "fadd NInf PInf = NaN"
| "fadd PInf _ = PInf"
| "fadd _ PInf = PInf"
| "fadd NInf _ = NInf"
| "fadd _ NInf = NInf"

definition fsub :: "float64 \<Rightarrow> float64 \<Rightarrow> float64" where
  "fsub a b = fadd a (fneg b)"

fun fmul :: "float64 \<Rightarrow> float64 \<Rightarrow> float64" where
  "fmul (Fin a) (Fin b) = round64 (a * b)"
| "fmul NaN _ = NaN"
| "fmul _ NaN = NaN"
| "fmul (Fin a) PInf = (if a = 0 then NaN else if 0 < a then PInf else NInf)"
| "fmul (Fin a) NInf = (if a = 0 then NaN else if 0 < a then NInf else PInf)"
| "fmul PInf (Fin b) = (if b = 0 then NaN else if 0 < b then PInf else NInf)"
| "fmul NInf (Fin b) = (if b = 0 then NaN else if 0 < b then NInf else PInf)"
| "fmul PInf PInf = PInf"
| "fmul PInf NInf = NInf"
| "fmul NInf PInf = NInf"
| "fmul NInf NInf = PInf"

text \<open>Division by a finite float that is not zero.\<close>

fun fdiv :: "float64 \<Rightarrow> real \<Rightarrow> float64" where
  "fdiv (Fin a) w = round64 (a / w)"
| "fdiv PInf w = (if 0 < w then PInf else NInf)"
| "fdiv NInf w = (if 0 < w then NInf else PInf)"
| "fdiv NaN w = NaN"

text \<open>
  Comparisons of a float with a number given exactly. Python compares a float with an
  \<^verbatim>\<open>int\<close> by value, without rounding the \<^verbatim>\<open>int\<close>; every comparison with NaN is false.
\<close>

fun float_lt :: "float64 \<Rightarrow> real \<Rightarrow> bool" where
  "float_lt (Fin a) r = (a < r)"
| "float_lt PInf r = False"
| "float_lt NInf r = True"
| "float_lt NaN r = False"

fun float_gt :: "float64 \<Rightarrow> real \<Rightarrow> bool" where
  "float_gt (Fin a) r = (r < a)"
| "float_gt PInf r = True"
| "float_gt NInf r = False"
| "float_gt NaN r = False"

fun float_ge :: "float64 \<Rightarrow> real \<Rightarrow> bool" where
  "float_ge (Fin a) r = (r \<le> a)"
| "float_ge PInf r = True"
| "float_ge NInf r = False"
| "float_ge NaN r = False"

fun float_le :: "float64 \<Rightarrow> real \<Rightarrow> bool" where
  "float_le (Fin a) r = (a \<le> r)"
| "float_le PInf r = False"
| "float_le NInf r = True"
| "float_le NaN r = False"

text \<open>
  \<^verbatim>\<open>float(n)\<close> for an \<^verbatim>\<open>int\<close>, also where an \<^verbatim>\<open>int\<close> meets a float in arithmetic: the
  nearest float, or \<^verbatim>\<open>OverflowError\<close>.
\<close>

definition float_of_int :: "int \<Rightarrow> py_exception + float64" where
  "float_of_int n =
     (case round64 (of_int n) of
        Fin x \<Rightarrow> Inr (Fin x)
      | _ \<Rightarrow> Inl (OverflowError ''int too large to convert to float''))"

text \<open>Python's \<^verbatim>\<open>int(x)\<close> on a float: truncation towards zero.\<close>

definition py_int_of_float :: "real \<Rightarrow> int" where
  "py_int_of_float x = (if x \<ge> 0 then \<lfloor>x\<rfloor> else \<lceil>x\<rceil>)"

fun int_of_float :: "float64 \<Rightarrow> py_exception + int" where
  "int_of_float (Fin x) = Inr (py_int_of_float x)"
| "int_of_float PInf = Inl (OverflowError ''cannot convert float infinity to integer'')"
| "int_of_float NInf = Inl (OverflowError ''cannot convert float infinity to integer'')"
| "int_of_float NaN = Inl (ValueError ''cannot convert float NaN to integer'')"

text \<open>
  \<^verbatim>\<open>vx // wx\<close> for a finite float \<open>vx\<close> and a positive finite float \<open>wx\<close>, step by step
  as the interpreter computes it: the exact remainder \<^verbatim>\<open>fmod(vx, wx)\<close>, the quotient
  \<^verbatim>\<open>(vx - mod) / wx\<close>, one less when the remainder is negative, and the quotient snapped
  to a whole number.
\<close>

definition py_fmod :: "real \<Rightarrow> real \<Rightarrow> real" where
  "py_fmod vx wx = vx - wx * of_int (py_int_of_float (vx / wx))"

definition float_floordiv :: "real \<Rightarrow> real \<Rightarrow> float64" where
  "float_floordiv vx wx =
     (let md = py_fmod vx wx;
          div0 = fdiv (round64 (vx - md)) wx;
          dv = (if md \<noteq> 0 \<and> md < 0 then fsub div0 (Fin 1) else div0)
      in case dv of
           Fin d \<Rightarrow>
             if d \<noteq> 0
             then (if float_gt (fsub (Fin d) (Fin (of_int \<lfloor>d\<rfloor>))) (1 / 2)
                   then fadd (Fin (of_int \<lfloor>d\<rfloor>)) (Fin 1)
                   else Fin (of_int \<lfloor>d\<rfloor>))
             else Fin 0
         | other \<Rightarrow> other)"

text \<open>
  A number that is an \<^verbatim>\<open>int\<close> or a float. The token count of a bucket is one: a float
  after \<^verbatim>\<open>__init__\<close>, the \<^verbatim>\<open>int\<close> capacity itself once \<^verbatim>\<open>min\<close> has picked it.
\<close>

datatype pynum = IntVal int | FloatVal float64

text \<open>\<^verbatim>\<open>x + y\<close> for a number \<open>x\<close> and a float \<open>y\<close>.\<close>

fun pynum_add_float :: "pynum \<Rightarrow> float64 \<Rightarrow> py_exception + float64" where
  "pynum_add_float (IntVal t) y =
     (case float_of_int t of Inl e \<Rightarrow> Inl e | Inr f \<Rightarrow> Inr (fadd f y))"
| "pynum_add_float (FloatVal f) y = Inr (fadd f y)"

text \<open>\<^verbatim>\<open>x >= n\<close> and \<^verbatim>\<open>x - n\<close> for a number \<open>x\<close> and an \<^verbatim>\<open>int\<close> \<open>n\<close>.\<close>

fun pynum_ge_int :: "pynum \<Rightarrow> int \<Rightarrow> bool" where
  "pynum_ge_int (IntVal t) n = (n \<le> t)"
| "pynum_ge_int (FloatVal f) n = float_ge f (of_int n)"

fun pynum_sub_int :: "pynum \<Rightarrow> int \<Rightarrow> py_exception + pynum" where
  "pynum_sub_int (IntVal t) n = Inr (IntVal (t - n))"
| "pynum_sub_int (FloatVal f) n =
     (case float_of_int n of Inl e \<Rightarrow> Inl e | Inr g \<Rightarrow> Inr (FloatVal (fsub f g)))"

text \<open>
  \<^verbatim>\<open>min(capacity, s)\<close> for the \<^verbatim>\<open>int\<close> capacity and a float \<open>s\<close>: the second argument
  only if it is smaller than the first.
\<close>

definition py_min_int_float :: "int \<Rightarrow> float64 \<Rightarrow> pynum" where
  "py_min_int_float cap s = (if float_lt s (of_int cap) then FloatVal s else IntVal cap)"

section \<open>Environment: the wall clock\<close>

text \<open>
  Every call of \<^verbatim>\<open>time.time()\<close> reads the wall clock and returns a finite float. The
  clock is the stream of the readings still to come; a read returns the head and leaves
  the tail. Nothing in the source assumes that readings grow, and none is assumed here.
\<close>

type_synonym clock = "real stream"

definition time_time :: "clock \<Rightarrow> real \<times> clock" where
  "time_time c = (shd c, stl c)"

section \<open>rate_limiting/RateLimiter.py\<close>

subsection \<open>RateLimitConfig\<close>

record RateLimitConfig =
  daily_request_limit :: int
  daily_token_limit :: int
  request_burst_capacity :: int
  request_refill_rate :: float64
  token_burst_capacity :: int
  token_refill_rate :: float64
  max_tokens_per_request :: int
  safety_buffer :: float64

subsection \<open>TokenBucket\<close>

record TokenBucket =
  capacity :: int
  refill_rate :: float64
  tokens :: pynum
  last_refill :: real

text \<open>
  \<^verbatim>\<open>TokenBucket.__init__\<close>: a full bucket, \<^verbatim>\<open>float(capacity)\<close>, stamped with the current
  time.
\<close>

definition TokenBucket_init ::
  "clock \<Rightarrow> int \<Rightarrow> float64 \<Rightarrow> (py_exception + TokenBucket) \<times> clock" where
  "TokenBucket_init c cap rate =
     (case float_of_int cap of
        Inl e \<Rightarrow> (Inl e, c)
      | Inr full \<Rightarrow>
          (let (now, c') = time_time c
           in (Inr \<lparr>capacity = cap, refill_rate = rate, tokens = FloatVal full,
                    last_refill = now\<rparr>, c')))"

text \<open>
  \<^verbatim>\<open>TokenBucket._refill\<close>. When the addition raises, no attribute has been assigned yet.
\<close>

definition refill :: "clock \<Rightarrow> TokenBucket \<Rightarrow> (py_exception + unit) \<times> TokenBucket \<times> clock" where
  "refill c b =
     (let (now, c') = time_time c;
          time_since_refill = fsub (Fin now) (Fin (last_refill b));
          tokens_to_add = fmul time_since_refill (refill_rate b)
      in case pynum_add_float (tokens b) tokens_to_add of
           Inl e \<Rightarrow> (Inl e, b, c')
         | Inr s \<Rightarrow>
             (Inr (), b\<lparr>tokens := py_min_int_float (capacity b) s, last_refill := now\<rparr>, c'))"

text \<open>
  \<^verbatim>\<open>TokenBucket.consume\<close>: the flag returned or the exception raised, the bucket after
  the call, the clock.
\<close>

definition consume ::
  "clock \<Rightarrow> int \<Rightarrow> TokenBucket \<Rightarrow> (py_exception + bool) \<times> TokenBucket \<times> clock" where
  "consume c required_tokens b =
     (let (r, b1, c') = refill c b
      in case r of
           Inl e \<Rightarrow> (Inl e, b1, c')
         | Inr _ \<Rightarrow>
             if pynum_ge_int (tokens b1) required_tokens
             then (case pynum_sub_int (tokens b1) required_tokens of
                     Inl e \<Rightarrow> (Inl e, b1, c')
                   | Inr left \<Rightarrow> (Inr True, b1\<lparr>tokens := left\<rparr>, c'))
             else (Inr False, b1, c'))"

text \<open>\<^verbatim>\<open>TokenBucket.has_capacity\<close>: refills, then only observes.\<close>

definition has_capacity ::
  "clock \<Rightarrow> int \<Rightarrow> TokenBucket \<Rightarrow> (py_exception + bool) \<times> TokenBucket \<times> clock" where
  "has_capacity c required_tokens b =
     (let (r, b1, c') = refill c b
      in case r of
           Inl e \<Rightarrow> (Inl e, b1, c')
         | Inr _ \<Rightarrow> (Inr (pynum_ge_int (tokens b1) required_tokens), b1, c'))"

subsection \<open>LLMRateLimiter\<close>

record LLMRateLimiter =
  config :: RateLimitConfig
  token_estimator :: "string \<Rightarrow> int"
  daily_requests_used :: int
  daily_tokens_used :: int
  daily_reset_time :: float64
  request_bucket :: TokenBucket
  token_bucket :: TokenBucket

text \<open>\<^verbatim>\<open>_default_token_estimator\<close>: \<^verbatim>\<open>max(1, len(text) // 4) + 30\<close>.\<close>

definition default_token_estimator :: "string \<Rightarrow> int" where
  "default_token_estimator txt = max 1 (int (length txt) div 4) + 30"

text \<open>\<^verbatim>\<open>_get_next_daily_reset\<close>: \<^verbatim>\<open>(now // 86400 + 1) * 86400\<close>, in floats.\<close>

definition get_next_daily_reset :: "clock \<Rightarrow> float64 \<times> clock" where
  "get_next_daily_reset c =
     (let (now, c') = time_time c
      in (fmul (fadd (float_floordiv now 86400) (Fin 1)) (Fin 86400), c'))"

text \<open>\<^verbatim>\<open>_check_daily_reset\<close>: the lazy reset of the daily counters.\<close>

definition check_daily_reset :: "clock \<Rightarrow> LLMRateLimiter \<Rightarrow> LLMRateLimiter \<times> clock" where
  "check_daily_reset c st =
     (let (now, c1) = time_time c
      in if float_le (daily_reset_time st) now
         then (let (r, c2) = get_next_daily_reset c1
               in (st\<lparr>daily_requests_used := 0, daily_tokens_used := 0,
                      daily_reset_time := r\<rparr>, c2))
         else (st, c1))"

text \<open>
  Line 170, \<^verbatim>\<open>int(total_estimated_tokens * (1 + self.config.safety_buffer))\<close>: the sum
  and the product are float operations, the \<^verbatim>\<open>int\<close> factor is converted first, and
  \<^verbatim>\<open>int()\<close> truncates the rounded product.
\<close>

definition buffered_tokens_of :: "float64 \<Rightarrow> int \<Rightarrow> py_exception + int" where
  "buffered_tokens_of buffer total_estimated_tokens =
     (case float_of_int total_estimated_tokens of
        Inl e \<Rightarrow> Inl e
      | Inr as_float \<Rightarrow> int_of_float (fmul as_float (fadd (Fin 1) buffer)))"

text \<open>
  The dictionary that \<^verbatim>\<open>can_process_request\<close> returns: either
  \<^verbatim>\<open>{"allowed": False, "reason": r}\<close> or
  \<^verbatim>\<open>{"allowed": True, "estimated_tokens": e, "buffered_tokens": b}\<close>.
\<close>

datatype check_result = Denied string | Allowed int int

fun allowed :: "check_result \<Rightarrow> bool" where
  "allowed (Denied _) = False"
| "allowed (Allowed _ _) = True"

definition can_process_request ::
  "clock \<Rightarrow> string \<Rightarrow> int \<Rightarrow> LLMRateLimiter
     \<Rightarrow> (py_exception + check_result) \<times> LLMRateLimiter \<times> clock" where
  "can_process_request c txt estimated_completion_tokens st =
     (let (st1, c1) = check_daily_reset c st;
          prompt_tokens = token_estimator st1 txt;
          total_estimated_tokens = prompt_tokens + estimated_completion_tokens
      in case buffered_tokens_of (safety_buffer (config st1)) total_estimated_tokens of
           Inl e \<Rightarrow> (Inl e, st1, c1)
         | Inr buffered_tokens \<Rightarrow>
             if daily_requests_used st1 \<ge> daily_request_limit (config st1)
             then (Inr (Denied ''daily_request_limit_exceeded''), st1, c1)
             else if daily_tokens_used st1 + buffered_tokens > daily_token_limit (config st1)
             then (Inr (Denied ''daily_token_limit_exceeded''), st1, c1)
             else
               (let (req, rb, c2) = has_capacity c1 1 (request_bucket st1);
                    st2 = st1\<lparr>request_bucket := rb\<rparr>
                in case req of
                     Inl e \<Rightarrow> (Inl e, st2, c2)
                   | Inr req_ok \<Rightarrow>
                       if \<not> req_ok
                       then (Inr (Denied ''request_rate_limit_exceeded''), st2, c2)
                       else
                         (let (tok, tb, c3) =
                                has_capacity c2 buffered_tokens (token_bucket st2);
                              st3 = st2\<lparr>token_bucket := tb\<rparr>
                          in case tok of
                               Inl e \<Rightarrow> (Inl e, st3, c3)
                             | Inr tok_ok \<Rightarrow>
                                 if \<not> tok_ok
                                 then (Inr (Denied ''token_rate_limit_exceeded''), st3, c3)
                                 else (Inr (Allowed total_estimated_tokens buffered_tokens),
                                       st3, c3))))"

definition acquire_tokens ::
  "clock \<Rightarrow> string \<Rightarrow> int \<Rightarrow> LLMRateLimiter
     \<Rightarrow> (py_exception + bool) \<times> LLMRateLimiter \<times> clock" where
  "acquire_tokens c txt estimated_completion_tokens st =
     (let (check_result, st1, c1) = can_process_request c txt estimated_completion_tokens st
      in case check_result of
           Inl e \<Rightarrow> (Inl e, st1, c1)
         | Inr (Denied _) \<Rightarrow> (Inr False, st1, c1)
         | Inr (Allowed _ buffered_tokens) \<Rightarrow>
             (let (req, rb, c2) = consume c1 1 (request_bucket st1);
                  st2 = st1\<lparr>request_bucket := rb\<rparr>
              in case req of
                   Inl e \<Rightarrow> (Inl e, st2, c2)
                 | Inr request_acquired \<Rightarrow>
                     (let (tok, tb, c3) = consume c2 buffered_tokens (token_bucket st2);
                          st3 = st2\<lparr>token_bucket := tb\<rparr>
                      in case tok of
                           Inl e \<Rightarrow> (Inl e, st3, c3)
                         | Inr token_acquired \<Rightarrow>
                             if \<not> (request_acquired \<and> token_acquired)
                             then (Inr False, st3, c3)
                             else (Inr True, st3, c3))))"

text \<open>
  \<^verbatim>\<open>LLMRateLimiter.__init__\<close>: one clock read for the reset boundary, then the two
  buckets. A caller's estimator replaces the default one.
\<close>

definition LLMRateLimiter_init ::
  "clock \<Rightarrow> RateLimitConfig \<Rightarrow> (string \<Rightarrow> int) option
     \<Rightarrow> (py_exception + LLMRateLimiter) \<times> clock" where
  "LLMRateLimiter_init c cfg estimator =
     (let (r, c1) = get_next_daily_reset c
      in case TokenBucket_init c1 (request_burst_capacity cfg) (request_refill_rate cfg) of
           (Inl e, c2) \<Rightarrow> (Inl e, c2)
         | (Inr rb, c2) \<Rightarrow>
             (case TokenBucket_init c2 (token_burst_capacity cfg) (token_refill_rate cfg) of
                (Inl e, c3) \<Rightarrow> (Inl e, c3)
              | (Inr tb, c3) \<Rightarrow>
                  (Inr \<lparr>config = cfg,
                        token_estimator =
                          (case estimator of None \<Rightarrow> default_token_estimator | Some f \<Rightarrow> f),
                        daily_requests_used = 0, daily_tokens_used = 0,
                        daily_reset_time = r, request_bucket = rb, token_bucket = tb\<rparr>, c3)))"

text \<open>
  The configuration and the limiter that \<^verbatim>\<open>tasks.py\<close> builds at import time. The
  literals \<^verbatim>\<open>0.5\<close> and \<^verbatim>\<open>0.1\<close> denote the floats nearest to them, and the \<^verbatim>\<open>int\<close> literal
  \<^verbatim>\<open>1000\<close> given for the token refill rate acts as the float 1000.
\<close>

definition ratelimitconfig :: RateLimitConfig where
  "ratelimitconfig =
     \<lparr>daily_request_limit = 1000, daily_token_limit = 200000,
      request_burst_capacity = 5, request_refill_rate = round64 (1 / 2),
      token_burst_capacity = 8000, token_refill_rate = Fin 1000,
      max_tokens_per_request = 1700, safety_buffer = round64 (1 / 10)\<rparr>"

definition groq_rate_limiter :: "clock \<Rightarrow> py_exception + LLMRateLimiter" where
  "groq_rate_limiter c = fst (LLMRateLimiter_init c ratelimitconfig None)"

text \<open>That limiter as it stands when every clock reading at import time is 0.\<close>

definition groq_at_0 :: LLMRateLimiter where
  "groq_at_0 =
     \<lparr>config = ratelimitconfig, token_estimator = default_token_estimator,
      daily_requests_used = 0, daily_tokens_used = 0, daily_reset_time = Fin 86400,
      request_bucket = \<lparr>capacity = 5, refill_rate = Fin (1 / 2), tokens = FloatVal (Fin 5),
                        last_refill = 0\<rparr>,
      token_bucket = \<lparr>capacity = 8000, refill_rate = Fin 1000, tokens = FloatVal (Fin 8000),
                      last_refill = 0\<rparr>\<rparr>"

text \<open>
  The float that the literal \<^verbatim>\<open>0.1\<close> denotes, and the float \<^verbatim>\<open>1 + 0.1\<close>; likewise for
  \<^verbatim>\<open>0.15\<close>.
\<close>

definition float_0_1 :: real where
  "float_0_1 = 3602879701896397 / 36028797018963968"

definition float_1_1 :: real where
  "float_1_1 = 2476979795053773 / 2251799813685248"

definition float_0_15 :: real where
  "float_0_15 = 5404319552844595 / 36028797018963968"

definition float_1_15 :: real where
  "float_1_15 = 2589569785738035 / 2251799813685248"


section \<open>models.py\<close>

text \<open>
  The enumeration \<^verbatim>\<open>ScheduleType(str, Enum)\<close>: its members in declaration order, each
  with its value. Reading an attribute that is no member raises \<^verbatim>\<open>AttributeError\<close>.
\<close>

definition ScheduleType :: "(string \<times> string) list" where
  "ScheduleType =
     [(''DAILY'', ''daily''),
      (''TWICE_DAILY'', ''twice_daily''),
      (''EVERY_TWO_DAYS'', ''every_two_days''),
      (''MONTHLY'', ''monthly''),
      (''WEEKLY'', ''weekly''),
      (''NONE'', ''none'')]"

definition ScheduleType_getattr :: "string \<Rightarrow> py_exception + string" where
  "ScheduleType_getattr name =
     (case map_of ScheduleType name of
        None \<Rightarrow> Inl (AttributeError name)
      | Some v \<Rightarrow> Inr v)"

section \<open>scheduling/validators.py\<close>

definition MAX_HOURS_INTERVAL :: int where "MAX_HOURS_INTERVAL = 24"
definition MIN_HOURS_INTERVAL :: int where "MIN_HOURS_INTERVAL = 1"
definition MAX_CHUNKS_PER_DELIVERY :: int where "MAX_CHUNKS_PER_DELIVERY = 10"
definition MIN_CHUNKS_PER_DELIVERY :: int where "MIN_CHUNKS_PER_DELIVERY = 1"

text \<open>
  The chained comparison \<^verbatim>\<open>lo <= x <= hi\<close> against integer bounds: for a value that is
  no number the first comparison raises \<^verbatim>\<open>TypeError\<close>.
\<close>

definition between :: "int \<Rightarrow> pyval \<Rightarrow> int \<Rightarrow> py_exception + bool" where
  "between lo x hi =
     (if isinstance_int x then Inr (lo \<le> int_value x \<and> int_value x \<le> hi)
      else Inl (TypeError ([CHR 0x27] @ ''<='' @ [CHR 0x27]
                           @ '' not supported between instances of ''
                           @ [CHR 0x27] @ ''int'' @ [CHR 0x27] @ '' and ''
                           @ [CHR 0x27] @ type_name x @ [CHR 0x27])))"

text \<open>
  Line 85, \<^verbatim>\<open>hour, minute = map(int, schedule_time.split(':'))\<close>. The unpacking draws
  from the lazy \<^verbatim>\<open>map\<close>: it converts the first two parts and then asks for a third, which
  is converted before the unpacking can complain about it.
\<close>

definition unpack_hour_minute :: "string list \<Rightarrow> py_exception + int \<times> int" where
  "unpack_hour_minute parts =
     (case parts of
        [] \<Rightarrow> Inl (ValueError ''not enough values to unpack (expected 2, got 0)'')
      | p1 # rest1 \<Rightarrow>
          (case int_of_str p1 of
             Inl e \<Rightarrow> Inl e
           | Inr hour \<Rightarrow>
               (case rest1 of
                  [] \<Rightarrow> Inl (ValueError ''not enough values to unpack (expected 2, got 1)'')
                | p2 # rest2 \<Rightarrow>
                    (case int_of_str p2 of
                       Inl e \<Rightarrow> Inl e
                     | Inr minute \<Rightarrow>
                         (case rest2 of
                            [] \<Rightarrow> Inr (hour, minute)
                          | p3 # _ \<Rightarrow>
                              (case int_of_str p3 of
                                 Inl e \<Rightarrow> Inl e
                               | Inr _ \<Rightarrow>
                                   Inl (ValueError
                                          ''too many values to unpack (expected 2)'')))))))"

text \<open>
  \<^verbatim>\<open>_validate_schedule_time\<close>. The inner \<^verbatim>\<open>except (ValueError, AttributeError)\<close> turns a
  failed unpacking or \<^verbatim>\<open>int()\<close> into \<^verbatim>\<open>InvalidScheduleDataException\<close>, with the text of
  the error appended to its message; a \<^verbatim>\<open>TypeError\<close> of the range test passes through it.
\<close>

definition hour_minute_in_range :: "pyval \<Rightarrow> pyval \<Rightarrow> py_exception + unit" where
  "hour_minute_in_range hour minute =
     (case between 0 hour 23 of
        Inl e \<Rightarrow> Inl e
      | Inr hour_ok \<Rightarrow>
          if \<not> hour_ok
          then Inl (InvalidScheduleDataException
                      ''Invalid time format: hour must be 0-23, minute must be 0-59'')
          else (case between 0 minute 59 of
                  Inl e \<Rightarrow> Inl e
                | Inr minute_ok \<Rightarrow>
                    if \<not> minute_ok
                    then Inl (InvalidScheduleDataException
                                ''Invalid time format: hour must be 0-23, minute must be 0-59'')
                    else Inr ()))"

definition validate_schedule_time :: "pyval \<Rightarrow> py_exception + unit" where
  "validate_schedule_time schedule_time =
     (case schedule_time of
        PStr s \<Rightarrow>
          (case unpack_hour_minute (split_on CHR '':'' s) of
             Inl e \<Rightarrow>
               Inl (InvalidScheduleDataException
                      (''Invalid schedule_time format: '' @ str_of_exception e))
           | Inr (hour, minute) \<Rightarrow> hour_minute_in_range (PInt hour) (PInt minute))
      | PDict kvs \<Rightarrow>
          hour_minute_in_range
            (case map_of kvs ''hour'' of None \<Rightarrow> PInt 9 | Some v \<Rightarrow> v)
            (case map_of kvs ''minute'' of None \<Rightarrow> PInt 0 | Some v \<Rightarrow> v)
      | _ \<Rightarrow> Inl (InvalidScheduleDataException ''schedule_time must be string (HH:MM) or dict''))"

text \<open>
  Lines 41 to 45: an unknown timezone is replaced, not rejected. The set of valid zones
  is \<^verbatim>\<open>pytz.all_timezones\<close>, a parameter here. Membership in a set hashes the value, so a
  list or a dictionary raises \<^verbatim>\<open>TypeError\<close>.
\<close>

definition validate_timezone :: "string set \<Rightarrow> pydict \<Rightarrow> py_exception + pydict" where
  "validate_timezone VALID_TIMEZONES user_data =
     (case py_get_default user_data ''user_timezone'' (PStr ''Asia/Kolkata'') of
        PList _ \<Rightarrow> Inl (TypeError (''unhashable type: '' @ [CHR 0x27] @ ''list'' @ [CHR 0x27]))
      | PDict _ \<Rightarrow> Inl (TypeError (''unhashable type: '' @ [CHR 0x27] @ ''dict'' @ [CHR 0x27]))
      | PStr tz \<Rightarrow>
          if tz \<notin> VALID_TIMEZONES
          then Inr (user_data(''user_timezone'' \<mapsto> PStr ''Asia/Kolkata''))
          else Inr user_data
      | _ \<Rightarrow> Inr (user_data(''user_timezone'' \<mapsto> PStr ''Asia/Kolkata'')))"

text \<open>Lines 54 to 59, the body of the \<^verbatim>\<open>EVERY_N_HOURS\<close> branch.\<close>

definition validate_hours_interval :: "pydict \<Rightarrow> py_exception + unit" where
  "validate_hours_interval user_data =
     (let hours_interval = py_get user_data ''hours_interval''
      in if \<not> truthy hours_interval
         then Inl (InvalidScheduleDataException
                     ''hours_interval is required for EVERY_N_HOURS schedule'')
         else if \<not> isinstance_int hours_interval
                 \<or> \<not> (MIN_HOURS_INTERVAL \<le> int_value hours_interval
                        \<and> int_value hours_interval \<le> MAX_HOURS_INTERVAL)
         then Inl (InvalidScheduleDataException ''hours_interval must be between 1 and 24'')
         else Inr ())"

text \<open>Lines 61 to 65.\<close>

definition clamp_chunks_per_delivery :: "pydict \<Rightarrow> pydict" where
  "clamp_chunks_per_delivery user_data =
     (let chunks_per_delivery = py_get_default user_data ''chunks_per_delivery'' (PInt 2)
      in if \<not> isinstance_int chunks_per_delivery
            \<or> \<not> (MIN_CHUNKS_PER_DELIVERY \<le> int_value chunks_per_delivery
                   \<and> int_value chunks_per_delivery \<le> MAX_CHUNKS_PER_DELIVERY)
         then user_data(''chunks_per_delivery'' \<mapsto> PInt 2)
         else user_data)"

text \<open>Lines 67 to 72.\<close>

definition clamp_immediate_chunks_count :: "pydict \<Rightarrow> pydict" where
  "clamp_immediate_chunks_count user_data =
     (let immediate_chunks_count = py_get_default user_data ''immediate_chunks_count'' (PInt 0)
      in if \<not> isinstance_int immediate_chunks_count \<or> int_value immediate_chunks_count < 0
         then user_data(''immediate_chunks_count'' \<mapsto> PInt 0)
         else if int_value immediate_chunks_count > int_value (py_get user_data ''total_chunks'')
         then user_data(''immediate_chunks_count'' \<mapsto> py_get user_data ''total_chunks'')
         else user_data)"

text \<open>
  The body of the \<^verbatim>\<open>try\<close> block of \<^verbatim>\<open>validate_schedule_data\<close>, statement by statement.
  Both comparisons with a member of \<^verbatim>\<open>ScheduleType\<close> first read the member from the
  enumeration.
\<close>

definition validate_schedule_data_body :: "string set \<Rightarrow> pydict \<Rightarrow> py_exception + pydict" where
  "validate_schedule_data_body VALID_TIMEZONES user_data =
     (if \<not> truthy (py_get user_data ''user_id'')
      then Inl (InvalidScheduleDataException ''user_id is required'')
      else if \<not> isinstance_int (py_get user_data ''total_chunks'')
              \<or> int_value (py_get user_data ''total_chunks'') \<le> 0
      then Inl (InvalidScheduleDataException ''total_chunks must be a positive integer'')
      else
        (let schedule_type = py_get user_data ''schedule_type''
         in if truthy schedule_type \<and> schedule_type \<notin> set (map (\<lambda>e. PStr (snd e)) ScheduleType)
            then Inl (InvalidScheduleDataException
                        (''Invalid schedule_type: '' @ py_str schedule_type))
            else
              (case ScheduleType_getattr ''NONE'' of
                 Inl e \<Rightarrow> Inl e
               | Inr none_member \<Rightarrow>
                   if schedule_type = PStr none_member then Inr user_data
                   else
                     (case validate_timezone VALID_TIMEZONES user_data of
                        Inl e \<Rightarrow> Inl e
                      | Inr user_data1 \<Rightarrow>
                          (case (if truthy (py_get user_data1 ''schedule_time'')
                                 then validate_schedule_time (py_get user_data1 ''schedule_time'')
                                 else Inr ()) of
                             Inl e \<Rightarrow> Inl e
                           | Inr _ \<Rightarrow>
                               (case ScheduleType_getattr ''EVERY_N_HOURS'' of
                                  Inl e \<Rightarrow> Inl e
                                | Inr every_n_hours_member \<Rightarrow>
                                    (case (if schedule_type = PStr every_n_hours_member
                                           then validate_hours_interval user_data1
                                           else Inr ()) of
                                       Inl e \<Rightarrow> Inl e
                                     | Inr _ \<Rightarrow>
                                         Inr (clamp_immediate_chunks_count
                                                (clamp_chunks_per_delivery user_data1)))))))))"

text \<open>
  \<^verbatim>\<open>validate_schedule_data\<close>: the \<^verbatim>\<open>except Exception as e\<close> clause around the body
  re-raises every exception as \<^verbatim>\<open>InvalidScheduleDataException(str(e))\<close>.
\<close>

definition validate_schedule_data :: "string set \<Rightarrow> pydict \<Rightarrow> py_exception + pydict" where
  "validate_schedule_data VALID_TIMEZONES user_data =
     (case validate_schedule_data_body VALID_TIMEZONES user_data of
        Inl e \<Rightarrow> Inl (InvalidScheduleDataException (str_of_exception e))
      | Inr cleaned \<Rightarrow> Inr cleaned)"

text \<open>A daily schedule request that meets every rule of the validator.\<close>

definition daily_request :: pydict where
  "daily_request =
     [''user_id'' \<mapsto> PStr ''u1'',
      ''total_chunks'' \<mapsto> PInt 3,
      ''schedule_type'' \<mapsto> PStr ''daily'',
      ''schedule_time'' \<mapsto> PStr ''09:00'',
      ''user_timezone'' \<mapsto> PStr ''Asia/Kolkata'']"

section \<open>tasks.py: simple\_chunk\_text\<close>

text \<open>The slice \<^verbatim>\<open>xs[a:b]\<close> for indices that are not negative.\<close>

definition slice :: "nat \<Rightarrow> nat \<Rightarrow> 'a list \<Rightarrow> 'a list" where
  "slice a b xs = take (b - a) (drop a xs)"

text \<open>
  The test of the first search loop at position \<open>i\<close>:
  \<^verbatim>\<open>text[i-1:i+1] in ['. ', '! ', '? '] or text[i-1:i+1] == '\n\n'\<close>.
  Every position the loop visits is above 100, so \<open>i - 1\<close> never wraps.
\<close>

definition sentence_end_at :: "string \<Rightarrow> nat \<Rightarrow> bool" where
  "sentence_end_at txt i =
     (let two = slice (i - 1) (i + 1) txt
      in two \<in> set [''. '', ''! '', ''? ''] \<or> two = [CHR 0x0A, CHR 0x0A])"

text \<open>
  The test of the second search loop: \<^verbatim>\<open>text[i] in '.!?\n '\<close>. Every position the loop
  visits is below \<^verbatim>\<open>len(text)\<close>, because the loops run only when \<^verbatim>\<open>end_pos < len(text)\<close>.
\<close>

definition break_char_at :: "string \<Rightarrow> nat \<Rightarrow> bool" where
  "break_char_at txt i =
     (txt ! i \<in> set [CHR ''.'', CHR ''!'', CHR ''?'', CHR 0x0A, CHR '' ''])"

text \<open>\<^verbatim>\<open>range(end_pos, search_start, -1)\<close>: from \<open>end_pos\<close> down to \<open>search_start + 1\<close>.\<close>

definition search_range :: "nat \<Rightarrow> nat \<Rightarrow> nat list" where
  "search_range end_pos search_start = rev [Suc search_start ..< Suc end_pos]"

text \<open>
  One pass of the loop body up to the cut: the value of \<^verbatim>\<open>end_pos\<close> when the chunk is
  sliced. \<^verbatim>\<open>int(max_chars * 0.8)\<close> is \<open>max_chars * 4 div 5\<close> (the float product is exact
  enough for every length a string can have). The \<^verbatim>\<open>for ... else\<close> runs its second loop
  only when the first did not \<^verbatim>\<open>break\<close>.
\<close>

definition find_end_pos :: "string \<Rightarrow> nat \<Rightarrow> nat \<Rightarrow> nat" where
  "find_end_pos txt max_chars current_pos =
     (let end_pos = min (current_pos + max_chars) (length txt)
      in if end_pos < length txt
         then
           (let search_start = max (current_pos + max_chars * 4 div 5) (current_pos + 100)
            in case find (sentence_end_at txt) (search_range end_pos search_start) of
                 Some i \<Rightarrow> i
               | None \<Rightarrow>
                   (case find (break_char_at txt) (search_range end_pos search_start) of
                      Some i \<Rightarrow> i + 1
                    | None \<Rightarrow> end_pos))
         else end_pos)"

text \<open>
  The \<^verbatim>\<open>while\<close> loop. A pass that does not move \<^verbatim>\<open>current_pos\<close> changes nothing (the
  chunk it slices is empty), so the source repeats it forever: that is the value \<open>None\<close>.
\<close>

function chunk_loop :: "string \<Rightarrow> nat \<Rightarrow> nat \<Rightarrow> string list \<Rightarrow> string list option" where
  "chunk_loop txt max_chars current_pos chunks =
     (if current_pos < length txt
      then
        (if find_end_pos txt max_chars current_pos \<le> current_pos then None
         else chunk_loop txt max_chars (find_end_pos txt max_chars current_pos)
                (if strip (slice current_pos (find_end_pos txt max_chars current_pos) txt) \<noteq> []
                 then chunks @ [strip (slice current_pos (find_end_pos txt max_chars current_pos) txt)]
                 else chunks))
      else Some chunks)"
  by pat_completeness auto
termination
  by (relation "measure (\<lambda>(txt, max_chars, current_pos, chunks). length txt - current_pos)") auto

declare chunk_loop.simps [simp del]

text \<open>
  \<^verbatim>\<open>simple_chunk_text\<close>. With a negative \<^verbatim>\<open>max_chars\<close> and a non-empty text the loop
  moves \<^verbatim>\<open>current_pos\<close> downwards and never ends; with an empty text it is not entered.
\<close>

definition simple_chunk_text :: "string \<Rightarrow> int \<Rightarrow> string list option" where
  "simple_chunk_text txt max_chars =
     (if int (length txt) \<le> max_chars then Some [txt]
      else if max_chars < 0 then (if txt = [] then Some [] else None)
      else chunk_loop txt (nat max_chars) 0 [])"

text \<open>
  The length of the longest run of characters of a string that holds no sentence
  terminator, punctuation, newline or space: the longest unbreakable run.
\<close>

fun longest_run_from :: "string \<Rightarrow> nat \<Rightarrow> nat \<Rightarrow> nat" where
  "longest_run_from [] run best = max run best"
| "longest_run_from (ch # cs) run best =
     (if ch \<in> set [CHR ''.'', CHR ''!'', CHR ''?'', CHR 0x0A, CHR '' '']
      then longest_run_from cs 0 (max run best)
      else longest_run_from cs (Suc run) best)"

definition longest_unbreakable_run :: "string \<Rightarrow> nat" where
  "longest_unbreakable_run s = longest_run_from s 0 0"

text \<open>
  A text of 104 characters: 33 times \<open>ab\<close> and a space, then \<open>ab\<close>, a full stop at
  position 101, and \<open>cd\<close>.
\<close>

definition full_stop_text :: string where
  "full_stop_text =
     ''ab ab ab ab ab ab ab ab ab ab ab ab ab ab ab ab ab ab ab ab ab ab ab ab ab ab ab ab ab ab ab ab ab ab.cd''"

definition full_stop_chunk :: string where
  "full_stop_chunk =
     ''ab ab ab ab ab ab ab ab ab ab ab ab ab ab ab ab ab ab ab ab ab ab ab ab ab ab ab ab ab ab ab ab ab ab.''"

section \<open>The store, the beat schedule, the task queue and the mail transport\<close>

text \<open>
  The Redis database, typed by key prefix. \<^verbatim>\<open>tasks.py\<close> reads it through the raw client
  and \<^verbatim>\<open>scheduler.py\<close> through \<^verbatim>\<open>RedisManager\<close>; both connect to the same database.
  The values are the JSON documents the program itself writes, as records:
  \<^item> \<^verbatim>\<open>user_chunks:{user_id}\<close> holds the subject's data, of which the functions below
    read the keys \<^verbatim>\<open>email\<close> and \<^verbatim>\<open>chunks\<close>;
  \<^item> \<^verbatim>\<open>user_schedule:{user_id}\<close> holds the schedule metadata, of which
    \<^verbatim>\<open>cleanup_user_schedule\<close> reads \<^verbatim>\<open>task_name\<close> and writes \<^verbatim>\<open>status\<close> and
    \<^verbatim>\<open>completed_at\<close>;
  \<^item> \<^verbatim>\<open>user_progress:{user_id}\<close> holds the progress state;
  \<^item> \<^verbatim>\<open>user_insights:{user_id}\<close> holds the merged list of insight records;
  \<^item> \<^verbatim>\<open>email_sent:{user_id}:{chunk_index}\<close> holds the delivery marker.
  Expiry of keys is not modelled: there is no clock in the store. The flag
  \<open>redis_online\<close> says whether the server answers; when it does not, every operation of
  a call raises.
\<close>

record Chunk =
  index :: int
  chunk_text :: string
  token_count :: int
  chunk_insight :: "string option"

record UserData =
  ud_email :: "string option"
  ud_chunks :: "Chunk list"

record ScheduleMetadata =
  sm_task_name :: string
  sm_status :: string
  sm_completed_at :: "string option"

record Progress =
  p_current_index :: int
  p_processed_count :: int
  p_last_processed_at :: string
  p_last_task_id :: string

text \<open>
  An insight record: \<^verbatim>\<open>{"chunk_index", "insight", "usage"}\<close> on success and
  \<^verbatim>\<open>{"chunk_index", "error"}\<close> on failure; a key that is absent is \<open>None\<close>.
\<close>

record InsightRecord =
  ir_chunk_index :: int
  ir_insight :: "string option"
  ir_error :: "string option"
  ir_usage :: "(string \<times> int) list option"

text \<open>An entry of \<^verbatim>\<open>celery_app.conf.beat_schedule\<close>: the arguments of the periodic job.\<close>

record BeatEntry =
  be_user_id :: string
  be_chunks_per_delivery :: int
  be_start_index :: int

text \<open>A task handed to the queue by \<^verbatim>\<open>.delay(...)\<close>.\<close>

datatype Task =
    GenerateInsights string "Chunk list"
  | SendEmailChunk string int string

record Email =
  mail_from :: string
  mail_to :: string
  mail_subject :: string
  mail_body :: string

record World =
  redis_online :: bool
  user_chunks :: "string \<rightharpoonup> UserData"
  user_schedule :: "string \<rightharpoonup> ScheduleMetadata"
  user_progress :: "string \<rightharpoonup> Progress"
  user_insights :: "string \<rightharpoonup> InsightRecord list"
  email_sent :: "string \<times> int \<rightharpoonup> string"
  beat_schedule :: "string \<rightharpoonup> BeatEntry"
  task_queue :: "Task list"
  outbox :: "Email list"

text \<open>
  Python's \<^verbatim>\<open>xs[a:b]\<close> for arbitrary integers: a negative index counts from the end, and
  both ends are clipped to the list.
\<close>

definition py_slice :: "int \<Rightarrow> int \<Rightarrow> 'a list \<Rightarrow> 'a list" where
  "py_slice a b xs =
     (let n = int (length xs);
          lo = (if a < 0 then max 0 (n + a) else min a n);
          hi = (if b < 0 then max 0 (n + b) else min b n)
      in take (nat (hi - lo)) (drop (nat lo) xs))"

section \<open>scheduling/metrics.py\<close>

text \<open>
  \<^verbatim>\<open>record_schedule_execution\<close> and \<^verbatim>\<open>record_error\<close> build a dictionary, log it, and
  call \<^verbatim>\<open>setex_json(key, timedelta(days=7), metric)\<close>. The module does not import
  \<^verbatim>\<open>timedelta\<close>, so evaluating the arguments raises \<^verbatim>\<open>NameError\<close>, which the method's own
  \<^verbatim>\<open>except Exception\<close> logs and drops: nothing reaches the store.
\<close>

definition record_schedule_execution :: "string \<Rightarrow> int \<Rightarrow> World \<Rightarrow> World" where
  "record_schedule_execution user_id chunks_processed w = w"

definition record_error :: "string \<Rightarrow> string \<Rightarrow> string \<Rightarrow> World \<Rightarrow> World" where
  "record_error error_type user_id error_details w = w"

section \<open>scheduling/scheduler.py\<close>

text \<open>
  \<^verbatim>\<open>cleanup_user_schedule\<close>. The parameter \<open>now\<close> is the timestamp
  \<^verbatim>\<open>datetime.now(...).isoformat()\<close>. With the store offline the first read raises, and the
  \<^verbatim>\<open>except Exception\<close> clause returns \<^verbatim>\<open>False\<close>.
\<close>

definition cleanup_user_schedule :: "string \<Rightarrow> string \<Rightarrow> World \<Rightarrow> bool \<times> World" where
  "cleanup_user_schedule now user_id w =
     (if \<not> redis_online w then (False, w)
      else
        (let w1 =
               (case user_schedule w user_id of
                  None \<Rightarrow> w
                | Some schedule_data \<Rightarrow>
                    (let task_name = sm_task_name schedule_data;
                         w' = (if task_name \<noteq> [] \<and> beat_schedule w task_name \<noteq> None
                               then w\<lparr>beat_schedule := (beat_schedule w)(task_name := None)\<rparr>
                               else w)
                     in w'\<lparr>user_schedule := (user_schedule w')
                             (user_id \<mapsto> schedule_data\<lparr>sm_status := ''completed'',
                                                         sm_completed_at := Some now\<rparr>)\<rparr>))
         in (True, w1\<lparr>user_progress := (user_progress w1)(user_id := None)\<rparr>)))"

text \<open>\<^verbatim>\<open>get_user_processing_state\<close>: the pair \<open>(current_index, processed_count)\<close>.\<close>

definition get_user_processing_state :: "string \<Rightarrow> int \<Rightarrow> World \<Rightarrow> int \<times> int" where
  "get_user_processing_state user_id start_index w =
     (if \<not> redis_online w then (start_index, 0)
      else (case user_progress w user_id of
              Some progress_data \<Rightarrow> (p_current_index progress_data, p_processed_count progress_data)
            | None \<Rightarrow> (start_index, 0)))"

text \<open>\<^verbatim>\<open>update_user_progress\<close>.\<close>

definition update_user_progress ::
  "string \<Rightarrow> string \<Rightarrow> int \<Rightarrow> int \<Rightarrow> string \<Rightarrow> World \<Rightarrow> bool \<times> World" where
  "update_user_progress now user_id new_index processed_count task_id w =
     (if \<not> redis_online w then (False, w)
      else (True,
            w\<lparr>user_progress := (user_progress w)
                (user_id \<mapsto> \<lparr>p_current_index = new_index,
                              p_processed_count = processed_count,
                              p_last_processed_at = now,
                              p_last_task_id = task_id\<rparr>)\<rparr>))"

text \<open>\<^verbatim>\<open>get_user_chunks\<close>: \<open>None\<close> when the key is missing or the read fails.\<close>

definition get_user_chunks :: "string \<Rightarrow> World \<Rightarrow> Chunk list option" where
  "get_user_chunks user_id w =
     (if \<not> redis_online w then None
      else map_option ud_chunks (user_chunks w user_id))"

section \<open>tasks.py: process\_scheduled\_chunks\<close>

text \<open>
  The dictionary a firing returns: \<^verbatim>\<open>user_data_not_found\<close>, \<^verbatim>\<open>completed\<close> with
  \<^verbatim>\<open>total_processed\<close>, or \<^verbatim>\<open>batch_queued\<close> with \<^verbatim>\<open>chunks_queued\<close>, the task id, the two
  ends of \<^verbatim>\<open>batch_range\<close>, \<^verbatim>\<open>total_processed\<close> and \<^verbatim>\<open>remaining\<close>.
\<close>

datatype sched_result =
    UserDataNotFound
  | Completed int
  | BatchQueued int string int int int int

text \<open>
  \<^verbatim>\<open>process_scheduled_chunks\<close>. The parameters \<open>now\<close> and \<open>new_task_id\<close> come from
  the environment: the timestamp and the id that \<^verbatim>\<open>generate_insights.delay\<close> returns.
\<close>

definition process_scheduled_chunks ::
  "string \<Rightarrow> string \<Rightarrow> string \<Rightarrow> int \<Rightarrow> int \<Rightarrow> World \<Rightarrow> (py_exception + sched_result) \<times> World" where
  "process_scheduled_chunks now new_task_id user_id chunks_per_delivery start_index w =
     (case get_user_chunks user_id w of
        None \<Rightarrow> (Inr UserDataNotFound, snd (cleanup_user_schedule now user_id w))
      | Some [] \<Rightarrow> (Inr UserDataNotFound, snd (cleanup_user_schedule now user_id w))
      | Some (_ # _) \<Rightarrow>
          if \<not> redis_online w
          then (Inl (RedisError ''connection error''),
                record_error ''task_execution_error'' user_id ''connection error'' w)
          else
            (case user_chunks w user_id of
               None \<Rightarrow> (Inr UserDataNotFound, snd (cleanup_user_schedule now user_id w))
             | Some user_data \<Rightarrow>
                 (let all_chunks = ud_chunks user_data
                  in if all_chunks = []
                     then (Inr UserDataNotFound, snd (cleanup_user_schedule now user_id w))
                     else
                       (let (current_index, processed_count) =
                              get_user_processing_state user_id start_index w;
                            end_index = min (current_index + chunks_per_delivery)
                                            (int (length all_chunks));
                            chunks_to_process = py_slice current_index end_index all_chunks
                        in if chunks_to_process = []
                           then
                             (let w1 = snd (cleanup_user_schedule now user_id w);
                                  w2 = record_schedule_execution user_id 0 w1
                              in (Inr (Completed processed_count), w2))
                           else
                             (let w1 = w\<lparr>task_queue := task_queue w
                                          @ [GenerateInsights user_id chunks_to_process]\<rparr>;
                                  new_processed_count =
                                    processed_count + int (length chunks_to_process);
                                  w2 = snd (update_user_progress now user_id end_index
                                              new_processed_count new_task_id w1);
                                  w3 = record_schedule_execution user_id
                                         (int (length chunks_to_process)) w2
                              in (Inr (BatchQueued (int (length chunks_to_process)) new_task_id
                                         current_index (end_index - 1) new_processed_count
                                         (int (length all_chunks) - end_index)),
                                  w3))))))"

text \<open>A world with a reachable, empty store.\<close>

definition empty_world :: World where
  "empty_world =
     \<lparr>redis_online = True, user_chunks = Map.empty, user_schedule = Map.empty,
      user_progress = Map.empty, user_insights = Map.empty, email_sent = Map.empty,
      beat_schedule = Map.empty, task_queue = [], outbox = []\<rparr>"

text \<open>
  A subject with three chunks and an active daily schedule that delivers two chunks per
  firing after one immediate chunk; and the same world after the first firing.
\<close>

definition chunk_a :: Chunk where
  "chunk_a = \<lparr>index = 0, chunk_text = ''Alpha.'', token_count = 1, chunk_insight = None\<rparr>"

definition chunk_b :: Chunk where
  "chunk_b = \<lparr>index = 1, chunk_text = ''Beta.'', token_count = 1, chunk_insight = None\<rparr>"

definition chunk_c :: Chunk where
  "chunk_c = \<lparr>index = 2, chunk_text = ''Gamma.'', token_count = 1, chunk_insight = None\<rparr>"

definition reader_data :: UserData where
  "reader_data = \<lparr>ud_email = Some ''reader@example.org'', ud_chunks = [chunk_a, chunk_b, chunk_c]\<rparr>"

definition three_chunk_world :: World where
  "three_chunk_world =
     empty_world
       \<lparr>user_chunks := [''u1'' \<mapsto> reader_data],
        user_schedule := [''u1'' \<mapsto> \<lparr>sm_task_name = ''process_user_chunks_u1'',
                                     sm_status = ''active'', sm_completed_at = None\<rparr>],
        beat_schedule := [''process_user_chunks_u1'' \<mapsto>
                            \<lparr>be_user_id = ''u1'', be_chunks_per_delivery = 2,
                             be_start_index = 1\<rparr>]\<rparr>"

definition three_chunk_world_fired :: World where
  "three_chunk_world_fired =
     three_chunk_world
       \<lparr>user_progress := [''u1'' \<mapsto> \<lparr>p_current_index = 3, p_processed_count = 2,
                                     p_last_processed_at = ''2026-01-01T09:00:00+05:30'',
                                     p_last_task_id = ''task-1''\<rparr>]\<rparr>"

section \<open>tasks.py: generate\_insights, the merge\<close>

text \<open>
  A Python dictionary keyed by chunk index, as an association list in insertion order:
  assigning to a key replaces the value in place or appends a new key.
\<close>

definition dict_assign_all ::
  "InsightRecord list \<Rightarrow> (int \<times> InsightRecord) list \<Rightarrow> (int \<times> InsightRecord) list" where
  "dict_assign_all rs m = fold (\<lambda>r. AList.update (ir_chunk_index r) r) rs m"

text \<open>
  Lines 320 to 330: \<^verbatim>\<open>existing_map\<close> is built from the stored list (empty when nothing
  is stored), every new result is assigned over it, and the values are listed by sorted
  key.
\<close>

definition merge_insights :: "InsightRecord list option \<Rightarrow> InsightRecord list \<Rightarrow> InsightRecord list" where
  "merge_insights existing insights_results =
     (let existing_map = (case existing of
                            Some rs \<Rightarrow> if rs \<noteq> [] then dict_assign_all rs [] else []
                          | None \<Rightarrow> []);
          merged_map = dict_assign_all insights_results existing_map
      in List.map_filter (map_of merged_map) (sort (map fst merged_map)))"

text \<open>
  \<^verbatim>\<open>generate_insights\<close> from line 318 on. The parameter \<open>insights_results\<close> is the list
  that \<^verbatim>\<open>asyncio.run(process_all_chunks())\<close> returned at line 316, one record per chunk
  of the call, whatever the rate limiter and the provider made of it. The function
  merges it into the stored list, persists the merged list, and enqueues one
  \<^verbatim>\<open>send_email_chunk\<close> per record of this call. It returns \<^verbatim>\<open>processed\<close> and
  \<^verbatim>\<open>total_stored\<close>.
\<close>

definition generate_insights ::
  "string \<Rightarrow> string \<Rightarrow> InsightRecord list \<Rightarrow> World \<Rightarrow> (py_exception + nat \<times> nat) \<times> World" where
  "generate_insights task_id userId insights_results w =
     (if \<not> redis_online w then (Inl (RedisError ''connection error''), w)
      else
        (let final_results = merge_insights (user_insights w userId) insights_results;
             w1 = w\<lparr>user_insights := (user_insights w)(userId \<mapsto> final_results)\<rparr>;
             w2 = w1\<lparr>task_queue := task_queue w1
                       @ map (\<lambda>item. SendEmailChunk userId (ir_chunk_index item) task_id)
                           insights_results\<rparr>
         in (Inr (length insights_results, length final_results), w2)))"

section \<open>tasks.py: send\_email\_chunk\<close>

text \<open>Python's \<^verbatim>\<open>xs[i]\<close>: a negative index counts from the end; \<open>None\<close> is \<^verbatim>\<open>IndexError\<close>.\<close>

definition py_index :: "'a list \<Rightarrow> int \<Rightarrow> 'a option" where
  "py_index xs i =
     (if 0 \<le> i \<and> i < int (length xs) then Some (xs ! nat i)
      else if i < 0 \<and> - int (length xs) \<le> i then Some (xs ! nat (int (length xs) + i))
      else None)"

text \<open>What a call returns: one of the two status dictionaries, or the retry it raises.\<close>

datatype email_result = AlreadySent | Sent | Retry py_exception

text \<open>\<^verbatim>\<open>entry.get("insight", "") or entry.get("error", "")\<close>.\<close>

definition insight_or_error :: "InsightRecord \<Rightarrow> string" where
  "insight_or_error entry =
     (case ir_insight entry of
        Some s \<Rightarrow> if s \<noteq> [] then s else (case ir_error entry of Some e \<Rightarrow> e | None \<Rightarrow> [])
      | None \<Rightarrow> (case ir_error entry of Some e \<Rightarrow> e | None \<Rightarrow> []))"

text \<open>
  What the SMTP exchange of one call, lines 476 to 480, does. Connecting, \<^verbatim>\<open>starttls\<close>,
  \<^verbatim>\<open>login\<close> or \<^verbatim>\<open>sendmail\<close> may raise before the mail server has accepted the message;
  or the server accepts the message and the \<^verbatim>\<open>with\<close> block ends normally; or the server
  accepts the message and an exception is raised afterwards, by \<^verbatim>\<open>sendmail\<close> losing the
  server's reply or by the \<^verbatim>\<open>QUIT\<close> that the end of the \<^verbatim>\<open>with\<close> block sends
  (\<^verbatim>\<open>SMTP.__exit__\<close> raises \<^verbatim>\<open>SMTPResponseException\<close> unless the reply is 221).
\<close>

datatype smtp_outcome =
    SmtpAccepted
  | SmtpRefused py_exception
  | SmtpAcceptedThenRaised py_exception

text \<open>
  The environment of a call fails after the send: the server has the message and the
  call raises before it has written the marker. \<open>marker_write_ok\<close> says whether the
  \<^verbatim>\<open>setex\<close> of line 483 succeeds.
\<close>

fun fails_after_send :: "smtp_outcome \<Rightarrow> bool \<Rightarrow> bool" where
  "fails_after_send SmtpAccepted marker_write_ok = (\<not> marker_write_ok)"
| "fails_after_send (SmtpRefused _) marker_write_ok = False"
| "fails_after_send (SmtpAcceptedThenRaised _) marker_write_ok = True"

text \<open>
  \<^verbatim>\<open>send_email_chunk\<close>. \<open>EMAIL_FROM\<close> is the sender of the environment, \<open>smtp\<close> the
  outcome of the SMTP exchange of this call and \<open>marker_write_ok\<close> that of the marker
  write; the outbox holds the messages that the mail server has accepted. The marker is
  read before the \<^verbatim>\<open>try\<close>, so a store that does not answer then fails the task outright.
  Inside the \<^verbatim>\<open>try\<close> the message is sent first and the marker written second, and every
  exception becomes a retry: also one that is raised after the server has accepted the
  message, which leaves the message sent and the marker unwritten.
\<close>

definition send_email_chunk ::
  "string \<Rightarrow> smtp_outcome \<Rightarrow> bool \<Rightarrow> string \<Rightarrow> int \<Rightarrow> World
     \<Rightarrow> (py_exception + email_result) \<times> World" where
  "send_email_chunk EMAIL_FROM smtp marker_write_ok user_id chunk_index w =
     (if \<not> redis_online w then (Inl (RedisError ''connection error''), w)
      else if (case email_sent w (user_id, chunk_index) of Some marker \<Rightarrow> marker \<noteq> [] | None \<Rightarrow> False)
      then (Inr AlreadySent, w)
      else
        (case user_chunks w user_id of
           None \<Rightarrow> (Inr (Retry (ValueError ''user_chunks not found in redis'')), w)
         | Some all_user_data \<Rightarrow>
             if chunk_index \<ge> int (length (ud_chunks all_user_data))
             then (Inr (Retry (IndexError ''chunk_index out of range'')), w)
             else
               (case py_index (ud_chunks all_user_data) chunk_index of
                  None \<Rightarrow> (Inr (Retry (IndexError ''list index out of range'')), w)
                | Some chunk \<Rightarrow>
                    (let insight_text =
                           (case user_insights w user_id of
                              None \<Rightarrow> []
                            | Some insights_list \<Rightarrow>
                                (case find (\<lambda>entry. ir_chunk_index entry = chunk_index)
                                        insights_list of
                                   None \<Rightarrow> []
                                 | Some entry \<Rightarrow> insight_or_error entry));
                         body = chunk_text chunk @ [CHR 0x0A, CHR 0x0A] @ ''---'' @ [CHR 0x0A]
                                @ ''Insights:'' @ [CHR 0x0A] @ insight_text
                     in case ud_email all_user_data of
                          None \<Rightarrow> (Inr (Retry (ValueError ''user email not found'')), w)
                        | Some to_email \<Rightarrow>
                            if to_email = []
                            then (Inr (Retry (ValueError ''user email not found'')), w)
                            else
                              (let msg = \<lparr>mail_from = EMAIL_FROM, mail_to = to_email,
                                          mail_subject = ''Your Scheduled Reading Chunk'',
                                          mail_body = body\<rparr>;
                                   w1 = w\<lparr>outbox := outbox w @ [msg]\<rparr>
                               in case smtp of
                                    SmtpRefused exc \<Rightarrow> (Inr (Retry exc), w)
                                  | SmtpAcceptedThenRaised exc \<Rightarrow> (Inr (Retry exc), w1)
                                  | SmtpAccepted \<Rightarrow>
                                      if \<not> marker_write_ok
                                      then (Inr (Retry (RedisError ''connection error'')), w1)
                                      else (Inr Sent,
                                            w1\<lparr>email_sent := (email_sent w1)
                                                 ((user_id, chunk_index) \<mapsto> ''1'')\<rparr>))))))"

text \<open>The list stored under \<^verbatim>\<open>user_insights:{userId}\<close>, empty when the key is missing.\<close>

definition stored_list :: "InsightRecord list option \<Rightarrow> InsightRecord list" where
  "stored_list existing = (case existing of Some rs \<Rightarrow> rs | None \<Rightarrow> [])"

text \<open>
  Insight records for the subject of \<open>three_chunk_world\<close>: chunk 0 succeeded earlier and
  chunk 1 was refused by the rate limiter; a later batch brings chunk 2 and a fresh result
  for chunk 1.
\<close>

definition insight_zero :: InsightRecord where
  "insight_zero = \<lparr>ir_chunk_index = 0, ir_insight = Some ''About alpha.'', ir_error = None,
                   ir_usage = Some [(''total_tokens'', 40)]\<rparr>"

definition insight_one_refused :: InsightRecord where
  "insight_one_refused =
     \<lparr>ir_chunk_index = 1, ir_insight = None,
      ir_error = Some ''Rate limit hit: request_rate_limit_exceeded'', ir_usage = None\<rparr>"

definition insight_one :: InsightRecord where
  "insight_one = \<lparr>ir_chunk_index = 1, ir_insight = Some ''About beta.'', ir_error = None,
                  ir_usage = Some [(''total_tokens'', 41)]\<rparr>"

definition insight_two :: InsightRecord where
  "insight_two = \<lparr>ir_chunk_index = 2, ir_insight = Some ''About gamma.'', ir_error = None,
                  ir_usage = Some [(''total_tokens'', 42)]\<rparr>"

definition insights_world :: World where
  "insights_world =
     three_chunk_world\<lparr>user_insights := [''u1'' \<mapsto> [insight_zero, insight_one_refused]]\<rparr>"

text \<open>The message that \<^verbatim>\<open>send_email_chunk\<close> builds for chunk 1 of that subject.\<close>

definition mail_for_chunk_one :: Email where
  "mail_for_chunk_one =
     \<lparr>mail_from = ''noreply@example.org'', mail_to = ''reader@example.org'',
      mail_subject = ''Your Scheduled Reading Chunk'',
      mail_body = ''Beta.'' @ [CHR 0x0A, CHR 0x0A] @ ''---'' @ [CHR 0x0A] @ ''Insights:''
                  @ [CHR 0x0A] @ ''Rate limit hit: request_rate_limit_exceeded''\<rparr>"

section \<open>Properties of Python floats\<close>

lemma round_half_even_of_int [simp]: "round_half_even (of_int m) = m"
  by (simp add: round_half_even_def)

lemma round_half_even_Ints: "v \<in> \<int> \<Longrightarrow> of_int (round_half_even v) = v"
  by (auto elim!: Ints_cases)




lemma binade_below_lower: "2 powi (binade_below k x) \<le> \<bar>x\<bar> \<or> binade_below k x = - 1022"
  by (induction k) auto

lemma binade_below_upper:
  "\<bar>x\<bar> < 2 powi (int k - 1021) \<Longrightarrow> \<bar>x\<bar> < 2 powi (binade_below k x + 1)"
proof (induction k)
  case 0
  then show ?case by simp
next
  case (Suc k)
  show ?case
  proof (cases "2 powi (int k - 1021) \<le> \<bar>x\<bar>")
    case True
    with Suc.prems show ?thesis by (simp add: algebra_simps)
  next
    case False
    then have "\<bar>x\<bar> < 2 powi (int k - 1021)" by simp
    from Suc.IH [OF this] False show ?thesis by simp
  qed
qed


lemma binade_lower: "2 powi (binade x) \<le> \<bar>x\<bar> \<or> binade x = - 1022"
  using binade_below_lower [of 2045 x] by (simp add: binade_def)

lemma binade_upper: "\<bar>x\<bar> < 2 powi 1024 \<Longrightarrow> \<bar>x\<bar> < 2 powi (binade x + 1)"
  using binade_below_upper [of x 2045] by (simp add: binade_def)

lemma binade_eqI:
  assumes "2 powi e \<le> \<bar>x\<bar>" "\<bar>x\<bar> < 2 powi (e + 1)" "- 1022 \<le> e" "e \<le> 1023"
  shows "binade x = e"
proof -
  have "(2::real) powi (e + 1) \<le> 2 powi 1024"
    using assms(4) by (intro power_int_increasing) auto
  with assms(2) have small: "\<bar>x\<bar> < 2 powi 1024" by linarith
  note up = binade_upper [OF small]
  have low: "2 powi (binade x) \<le> \<bar>x\<bar>"
  proof (rule disjE [OF binade_lower [of x]])
    assume "binade x = - 1022"
    then have "(2::real) powi (binade x) \<le> 2 powi e"
      using assms(3) by (intro power_int_increasing) auto
    with assms(1) show ?thesis by linarith
  qed
  have a: "e < binade x + 1"
  proof (rule ccontr)
    assume "\<not> e < binade x + 1"
    then have "(2::real) powi (binade x + 1) \<le> 2 powi e"
      by (intro power_int_increasing) auto
    with assms(1) up show False by linarith
  qed
  have b: "binade x < e + 1"
  proof (rule ccontr)
    assume "\<not> binade x < e + 1"
    then have "(2::real) powi (e + 1) \<le> 2 powi (binade x)"
      by (intro power_int_increasing) auto
    with assms(2) low show False by linarith
  qed
  from a b show ?thesis by linarith
qed

text \<open>A value that fits the format is left alone.\<close>

lemma round_finite_representable:
  assumes x: "x = of_int m * 2 powi k" and m: "\<bar>m\<bar> \<le> 2 ^ 53" and k: "- 1074 \<le> k"
  shows "round_finite x = x"
proof -
  define e where "e = binade x"
  have "x / 2 powi (e - 52) \<in> \<int>"
  proof (cases "e - 52 \<le> k")
    case True
    have "x / 2 powi (e - 52) = of_int m * 2 powi (k - (e - 52))"
      by (simp add: x power_int_diff)
    also have "\<dots> = of_int m * 2 ^ nat (k - (e - 52))"
      using True by (simp add: power_int_nonneg_exp)
    also have "\<dots> = of_int (m * 2 ^ nat (k - (e - 52)))" by simp
    finally show ?thesis by (metis Ints_of_int)
  next
    case False
    then have gt: "k < e - 52" by simp
    with k have "e \<noteq> - 1022" by linarith
    with binade_lower [of x] have low: "2 powi e \<le> \<bar>x\<bar>" by (simp add: e_def)
    have absx: "\<bar>x\<bar> = of_int \<bar>m\<bar> * 2 powi k" by (simp add: x abs_mult)
    also have "\<dots> \<le> 2 ^ 53 * 2 powi k"
    proof (rule mult_right_mono)
      have "real_of_int \<bar>m\<bar> \<le> real_of_int (2 ^ 53)" using m by (simp only: of_int_le_iff)
      then show "real_of_int \<bar>m\<bar> \<le> 2 ^ 53" by simp
    qed simp
    also have "\<dots> = 2 powi (53 + k)" by (simp add: power_int_add)
    finally have "(2::real) powi e \<le> 2 powi (53 + k)" using low by linarith
    have "e \<le> 53 + k"
    proof (rule ccontr)
      assume "\<not> e \<le> 53 + k"
      then have "(2::real) powi (53 + k) < 2 powi e"
        by (intro power_int_strict_increasing) auto
      with \<open>(2::real) powi e \<le> 2 powi (53 + k)\<close> show False by linarith
    qed
    with gt have ke: "k = e - 53" by linarith
    have "2 powi e \<le> real_of_int \<bar>m\<bar> * 2 powi k" using low absx by simp
    then have "2 powi (e - k) \<le> real_of_int \<bar>m\<bar>"
      by (simp add: power_int_diff pos_divide_le_eq)
    then have "(2::real) ^ 53 \<le> real_of_int \<bar>m\<bar>" by (simp add: ke)
    then have "real_of_int (2 ^ 53) \<le> real_of_int \<bar>m\<bar>" by simp
    then have "2 ^ 53 \<le> \<bar>m\<bar>" by (simp only: of_int_le_iff)
    with m have "\<bar>m\<bar> = 2 ^ 53" by linarith
    then have mcases: "m = 2 ^ 53 \<or> m = - (2 ^ 53)" by linarith
    have "x / 2 powi (e - 52) = of_int m * 2 powi (k - (e - 52))"
      by (simp add: x power_int_diff)
    also have "\<dots> = of_int m / 2" by (simp add: ke power_int_minus)
    finally have half: "x / 2 powi (e - 52) = of_int m / 2" .
    from mcases show ?thesis
    proof
      assume "m = 2 ^ 53"
      then have "x / 2 powi (e - 52) = of_int (2 ^ 52)" by (simp add: half)
      then show ?thesis by (metis Ints_of_int)
    next
      assume "m = - (2 ^ 53)"
      then have "x / 2 powi (e - 52) = of_int (- (2 ^ 52))" by (simp add: half)
      then show ?thesis by (metis Ints_of_int)
    qed
  qed
  then have "of_int (round_half_even (x / ulp_at x)) = x / ulp_at x"
    by (simp add: round_half_even_Ints ulp_at_def e_def)
  then show ?thesis by (simp add: round_finite_def ulp_at_def)
qed

lemma round64_representable:
  assumes "x = of_int m * 2 powi k" and "\<bar>m\<bar> \<le> 2 ^ 53" and "- 1074 \<le> k"
    and "\<bar>x\<bar> \<le> max_float"
  shows "round64 x = Fin x"
proof -
  have "max_float < overflow_threshold"
    by (simp add: max_float_def overflow_threshold_def)
  with assms(4) have "\<not> overflow_threshold \<le> \<bar>x\<bar>" by linarith
  then show ?thesis
    using round_finite_representable [OF assms(1-3)] by (simp add: round64_def)
qed

lemma round64_of_int:
  assumes "\<bar>t\<bar> \<le> 2 ^ 53"
  shows "round64 (of_int t) = Fin (of_int t)"
proof (rule round64_representable [where m = t and k = 0])
  have "real_of_int \<bar>t\<bar> \<le> real_of_int (2 ^ 53)" using assms by (simp only: of_int_le_iff)
  then show "\<bar>real_of_int t\<bar> \<le> max_float" by (simp add: max_float_def)
qed (use assms in simp_all)



text \<open>Rounding at a known binade, for computing concrete results.\<close>

lemma round64_at_binade:
  assumes "2 powi e \<le> \<bar>x\<bar>" "\<bar>x\<bar> < 2 powi (e + 1)" "- 1022 \<le> e" "e \<le> 1022"
  shows "round64 x = Fin (of_int (round_half_even (x / 2 powi (e - 52))) * 2 powi (e - 52))"
proof -
  have "binade x = e" using assms by (intro binade_eqI) auto
  moreover have "(2::real) powi (e + 1) \<le> 2 powi 1023"
    using assms(4) by (intro power_int_increasing) auto
  then have "\<bar>x\<bar> < overflow_threshold"
    using assms(2) by (simp add: overflow_threshold_def)
  ultimately show ?thesis by (simp add: round64_def round_finite_def ulp_at_def)
qed

text \<open>Rounding leaves whole numbers up to \<open>2 ^ 53\<close> and the half alone.\<close>

lemma round64_numeral:
  "(numeral w :: int) \<le> 2 ^ 53 \<Longrightarrow> round64 (numeral w) = Fin (numeral w)"
  using round64_of_int [of "numeral w"] by simp

lemma round64_neg_numeral:
  "(numeral w :: int) \<le> 2 ^ 53 \<Longrightarrow> round64 (- numeral w) = Fin (- numeral w)"
  using round64_of_int [of "- numeral w"] by simp

lemma round64_0: "round64 0 = Fin 0"
  using round64_of_int [of 0] by simp

lemma round64_1: "round64 1 = Fin 1"
  using round64_of_int [of 1] by simp

lemma round64_half: "round64 (1 / 2) = Fin (1 / 2)"
  by (subst round64_at_binade [where e = "- 1"])
     (simp_all add: round_half_even_def power_int_minus)

text \<open>The literals \<^verbatim>\<open>0.1\<close> and \<^verbatim>\<open>0.15\<close>.\<close>

lemma round64_tenth: "round64 (1 / 10) = Fin float_0_1"
  unfolding float_0_1_def
  by (subst round64_at_binade [where e = "- 4"])
     (simp_all add: round_half_even_def power_int_minus)

lemma round64_fifteen_hundredths: "round64 (3 / 20) = Fin float_0_15"
  unfolding float_0_15_def
  by (subst round64_at_binade [where e = "- 3"])
     (simp_all add: round_half_even_def power_int_minus)

lemmas round64_simps =
  round64_numeral round64_neg_numeral round64_0 round64_1 round64_half round64_tenth





section \<open>Properties of the token bucket\<close>



text \<open>
  Beyond \<open>2 ^ 53\<close> a float no longer counts single units: a bucket holding
  \<open>2 ^ 53 + 2\<close> tokens that gives out one token holds \<open>2 ^ 53\<close> afterwards.
\<close>

lemma consume_rounds_beyond_2_53:
  "consume (sconst 0) 1
     \<lparr>capacity = 2 ^ 60, refill_rate = Fin 1, tokens = FloatVal (Fin (2 ^ 53 + 2)),
      last_refill = 0\<rparr>
   = (Inr True,
      \<lparr>capacity = 2 ^ 60, refill_rate = Fin 1, tokens = FloatVal (Fin (2 ^ 53)),
       last_refill = 0\<rparr>,
      sconst 0)"
proof -
  have a: "round64 9007199254740994 = Fin 9007199254740994"
    by (subst round64_at_binade [where e = 53])
       (simp_all add: round_half_even_def power_int_minus)
  have b: "round64 9007199254740993 = Fin 9007199254740992"
    by (subst round64_at_binade [where e = 53])
       (simp_all add: round_half_even_def power_int_minus)
  show ?thesis
    by (simp add: consume_def refill_def time_time_def fsub_def py_min_int_float_def
        float_of_int_def round64_simps a b)
qed

section \<open>Properties of the quota manager\<close>

text \<open>The buffered amounts for the estimates 31 and 531 under the deployed buffer.\<close>

lemma one_plus_tenth: "round64 (1 + float_0_1) = Fin float_1_1"
  unfolding float_0_1_def float_1_1_def
  by (subst round64_at_binade [where e = 0])
     (simp_all add: round_half_even_def power_int_minus)

lemma product_31: "round64 (31 * float_1_1) = Fin (4799148352916685 / 140737488355328)"
  unfolding float_1_1_def
  by (subst round64_at_binade [where e = 5])
     (simp_all add: round_half_even_def power_int_minus)

lemma product_531: "round64 (531 * float_1_1) = Fin (5137797934271693 / 8796093022208)"
  unfolding float_1_1_def
  by (subst round64_at_binade [where e = 9])
     (simp_all add: round_half_even_def power_int_minus)

lemma buffered_31: "buffered_tokens_of (Fin float_0_1) 31 = Inr 34"
  by (simp add: buffered_tokens_of_def float_of_int_def round64_numeral one_plus_tenth
      product_31 py_int_of_float_def)

lemma buffered_531: "buffered_tokens_of (Fin float_0_1) 531 = Inr 584"
  by (simp add: buffered_tokens_of_def float_of_int_def round64_numeral one_plus_tenth
      product_531 py_int_of_float_def)

text \<open>
  The product is rounded before it is truncated. With a buffer of \<^verbatim>\<open>0.15\<close> the float
  product for the estimate 100 lies just below 115 and gives 114; for the estimate 40 the
  exact product of the floats lies just below 46, rounds to \<^verbatim>\<open>46.0\<close> and gives 46.
\<close>

lemma one_plus_fifteen_hundredths: "round64 (1 + float_0_15) = Fin float_1_15"
  unfolding float_0_15_def float_1_15_def
  by (subst round64_at_binade [where e = 0])
     (simp_all add: round_half_even_def power_int_minus)

lemma product_100: "round64 (100 * float_1_15) = Fin (8092405580431359 / 70368744177664)"
  unfolding float_1_15_def
  by (subst round64_at_binade [where e = 6])
     (simp_all add: round_half_even_def power_int_minus)

lemma product_40: "round64 (40 * float_1_15) = Fin 46"
  unfolding float_1_15_def
  by (subst round64_at_binade [where e = 5])
     (simp_all add: round_half_even_def power_int_minus)

lemma buffered_at_fifteen_hundredths:
  "buffered_tokens_of (Fin float_0_15) 100 = Inr 114"
  "buffered_tokens_of (Fin float_0_15) 40 = Inr 46"
  "\<lfloor>40 * float_1_15\<rfloor> = 45"
  by (simp_all add: buffered_tokens_of_def float_of_int_def round64_numeral
      one_plus_fifteen_hundredths product_100 product_40 py_int_of_float_def)
     (simp add: float_1_15_def)

lemma check_daily_reset_keeps:
  "token_estimator (fst (check_daily_reset c st)) = token_estimator st"
  "config (fst (check_daily_reset c st)) = config st"
  by (simp_all add: check_daily_reset_def get_next_daily_reset_def time_time_def Let_def
      split: prod.splits)

text \<open>The limiter of \<^verbatim>\<open>tasks.py\<close>, built when every clock reading is 0.\<close>

lemma groq_rate_limiter_at_0: "groq_rate_limiter (sconst 0) = Inr groq_at_0"
  by (simp add: groq_rate_limiter_def LLMRateLimiter_init_def get_next_daily_reset_def
      TokenBucket_init_def time_time_def ratelimitconfig_def groq_at_0_def float_floordiv_def
      py_fmod_def py_int_of_float_def float_of_int_def fsub_def round64_simps Let_def)

lemmas limiter_defs =
  acquire_tokens_def consume_def can_process_request_def check_daily_reset_def
  get_next_daily_reset_def has_capacity_def refill_def time_time_def py_min_int_float_def
  float_floordiv_def py_fmod_def py_int_of_float_def float_of_int_def fsub_def Let_def

lemmas limiter_consts =
  groq_at_0_def ratelimitconfig_def default_token_estimator_def buffered_31 buffered_531
  round64_simps

text \<open>
  C4, as the specification states it, fails. For the four-character text \<open>abcd\<close> and no
  completion units the estimate is 31 and the safety buffer is the float \<^verbatim>\<open>0.1\<close>:
  \<^verbatim>\<open>can_process_request\<close> allows the request with 34 buffered tokens. The ceiling of the
  product is 35, whether the product is taken exactly, 34.1, or in floats as the code
  computes it.
\<close>

theorem can_process_request_ceiling_counterexample:
  "fst (can_process_request (sconst 0) ''abcd'' 0 groq_at_0) = Inr (Allowed 31 34)
   \<and> \<lceil>real_of_int (token_estimator groq_at_0 ''abcd'' + 0) * (1 + 1 / 10)\<rceil> = (35 :: int)
   \<and> fmul (Fin (real_of_int (token_estimator groq_at_0 ''abcd'' + 0)))
        (fadd (Fin 1) (safety_buffer (config groq_at_0)))
       = Fin (4799148352916685 / 140737488355328)
   \<and> \<lceil>4799148352916685 / 140737488355328 :: real\<rceil> = (35 :: int)"
proof -
  have "fst (can_process_request (sconst 0) ''abcd'' 0 groq_at_0) = Inr (Allowed 31 34)"
    by (simp add: limiter_defs limiter_consts)
  moreover have "fmul (Fin (real_of_int (token_estimator groq_at_0 ''abcd'' + 0)))
        (fadd (Fin 1) (safety_buffer (config groq_at_0)))
       = Fin (4799148352916685 / 140737488355328)"
    by (simp add: groq_at_0_def ratelimitconfig_def default_token_estimator_def round64_tenth
        one_plus_tenth product_31)
  ultimately show ?thesis
    by (simp add: groq_at_0_def default_token_estimator_def)
qed

text \<open>
  C4, amended. Whenever \<^verbatim>\<open>can_process_request\<close> allows a request, the estimate it
  returns is \<open>estimate(text) + estimated_completion_units\<close>, and the buffered value is
  \<^verbatim>\<open>int()\<close> of the float product of that estimate, converted to a float, and the float sum
  \<^verbatim>\<open>1 + safety_buffer\<close>: the product is finite and is truncated towards zero, which is
  its floor, not its ceiling, whenever it is not negative.
\<close>

theorem can_process_request_buffered_truncates:
  assumes "fst (can_process_request c txt ect st) = Inr (Allowed est buf)"
  shows "est = token_estimator st txt + ect
       \<and> (\<exists>as_float product.
             float_of_int est = Inr as_float
           \<and> fmul as_float (fadd (Fin 1) (safety_buffer (config st))) = Fin product
           \<and> buf = py_int_of_float product
           \<and> (0 \<le> product \<longrightarrow> buf = \<lfloor>product\<rfloor>))"
proof -
  note same = check_daily_reset_keeps [of c st]
  from assms have est: "est = token_estimator st txt + ect"
    and buf: "buffered_tokens_of (safety_buffer (config st)) est = Inr buf"
    using same
    by (auto simp add: can_process_request_def Let_def split: prod.splits sum.splits if_splits)
  from buf obtain as_float where f: "float_of_int est = Inr as_float"
    and i: "int_of_float (fmul as_float (fadd (Fin 1) (safety_buffer (config st)))) = Inr buf"
    by (auto simp add: buffered_tokens_of_def split: sum.splits)
  from i obtain product
    where p: "fmul as_float (fadd (Fin 1) (safety_buffer (config st))) = Fin product"
      and b: "buf = py_int_of_float product"
    by (cases "fmul as_float (fadd (Fin 1) (safety_buffer (config st)))") auto
  from b have "0 \<le> product \<longrightarrow> buf = \<lfloor>product\<rfloor>" by (simp add: py_int_of_float_def)
  with est f p b show ?thesis by blast
qed

theorem can_process_request_buffered_truncates_witness:
  "fst (can_process_request (sconst 0) ''abcd'' 500 groq_at_0) = Inr (Allowed 531 584)
   \<and> fmul (Fin 531) (fadd (Fin 1) (safety_buffer (config groq_at_0)))
       = Fin (5137797934271693 / 8796093022208)
   \<and> (584 :: int) = \<lfloor>5137797934271693 / 8796093022208 :: real\<rfloor>"
proof -
  have allowed_here:
    "fst (can_process_request (sconst 0) ''abcd'' 500 groq_at_0) = Inr (Allowed 531 584)"
    by (simp add: limiter_defs limiter_consts)
  have product: "fmul (Fin 531) (fadd (Fin 1) (safety_buffer (config groq_at_0)))
                   = Fin (5137797934271693 / 8796093022208)"
    by (simp add: groq_at_0_def ratelimitconfig_def round64_tenth one_plus_tenth product_531)
  from can_process_request_buffered_truncates [OF allowed_here] allowed_here product
  show ?thesis by simp
qed

text \<open>
  C9, as the specification states it, fails. A limiter whose daily request counter
  stands at the limit of 1000, asked after its reset boundary has passed (the boundary is
  86400, the clock reads 90000), first zeroes the counters and then grants the request.
\<close>

theorem acquire_tokens_daily_cap_counterexample:
  "daily_request_limit (config (groq_at_0\<lparr>daily_requests_used := 1000\<rparr>))
     \<le> daily_requests_used (groq_at_0\<lparr>daily_requests_used := 1000\<rparr>)
   \<and> fst (acquire_tokens (sconst 90000) ''abcd'' 0 (groq_at_0\<lparr>daily_requests_used := 1000\<rparr>))
       = Inr True"
  by (simp add: limiter_defs limiter_consts)

text \<open>
  C9, amended. \<^verbatim>\<open>acquire_tokens\<close> never returns success when the daily request counter,
  as it stands after the lazy daily reset that the call performs first, has reached the
  daily request limit. In particular it never succeeds while the reset boundary has not
  passed and \<open>daily_requests_used \<ge> daily_request_limit\<close>.
\<close>

theorem acquire_tokens_denied_at_daily_cap:
  assumes "daily_request_limit (config st) \<le> daily_requests_used (fst (check_daily_reset c st))"
  shows "fst (acquire_tokens c txt ect st) \<noteq> Inr True"
  using assms check_daily_reset_keeps(2) [of c st]
  by (auto simp add: acquire_tokens_def can_process_request_def Let_def
      split: prod.splits sum.splits if_splits check_result.splits)

theorem acquire_tokens_denied_at_daily_cap_witness:
  "daily_request_limit (config (groq_at_0\<lparr>daily_requests_used := 1000\<rparr>))
     \<le> daily_requests_used
          (fst (check_daily_reset (sconst 100) (groq_at_0\<lparr>daily_requests_used := 1000\<rparr>)))
   \<and> fst (acquire_tokens (sconst 100) ''abcd'' 0 (groq_at_0\<lparr>daily_requests_used := 1000\<rparr>))
       = Inr False"
proof -
  have at_cap:
    "daily_request_limit (config (groq_at_0\<lparr>daily_requests_used := 1000\<rparr>))
       \<le> daily_requests_used
            (fst (check_daily_reset (sconst 100) (groq_at_0\<lparr>daily_requests_used := 1000\<rparr>)))"
    by (simp add: check_daily_reset_def time_time_def limiter_consts)
  have "fst (acquire_tokens (sconst 100) ''abcd'' 0 (groq_at_0\<lparr>daily_requests_used := 1000\<rparr>))
          = Inr False"
    by (simp add: limiter_defs limiter_consts)
  with acquire_tokens_denied_at_daily_cap [OF at_cap] at_cap show ?thesis by simp
qed

text \<open>
  What \<^verbatim>\<open>acquire_tokens\<close> does after an allowing check, for every state: the request
  bucket is consumed first, the token bucket second, both from the state that the check
  left, and the call returns success only if both did; nothing is given back.
\<close>

lemma acquire_tokens_after_allowed_check:
  assumes "can_process_request c txt ect st = (Inr (Allowed est buf), st1, c1)"
    and "consume c1 1 (request_bucket st1) = (Inr ra, rb, c2)"
    and "consume c2 buf (token_bucket st1) = (Inr ta, tb, c3)"
  shows "acquire_tokens c txt ect st
           = (Inr (ra \<and> ta), st1\<lparr>request_bucket := rb, token_bucket := tb\<rparr>, c3)"
  using assms by (auto simp add: acquire_tokens_def Let_def)

text \<open>
  C10. \<^verbatim>\<open>acquire_tokens\<close> is not atomic across its two buckets. There is a state, a text
  and a sequence of clock readings for which \<^verbatim>\<open>can_process_request\<close> allows the call and
  leaves the request bucket full; the \<^verbatim>\<open>consume(1)\<close> that \<^verbatim>\<open>acquire_tokens\<close> then runs on
  the request bucket succeeds and takes the bucket from its capacity to one unit less;
  the \<^verbatim>\<open>consume\<close> on the token bucket fails, because the bucket lacks the buffered
  amount; and \<^verbatim>\<open>acquire_tokens\<close> returns failure in a state that holds the request bucket
  as the first \<^verbatim>\<open>consume\<close> left it, one unit short: the unit is consumed and not restored.
  The request bucket was full before the call, so no refill supplies the unit. (Here the
  token bucket of the deployed limiter starts empty, refills to 2000 at clock reading 2
  for the check, and is drained again by a clock that steps back to 0 before the second
  \<^verbatim>\<open>consume\<close>; a concurrent consumer between check and \<^verbatim>\<open>consume\<close> has the same effect.)
\<close>

theorem acquire_tokens_not_atomic:
  "\<exists>c txt ect st est buf st1 c1 rb c2 tb c3.
     can_process_request c txt ect st = (Inr (Allowed est buf), st1, c1)
   \<and> consume c1 1 (request_bucket st1) = (Inr True, rb, c2)
   \<and> consume c2 buf (token_bucket st1) = (Inr False, tb, c3)
   \<and> acquire_tokens c txt ect st
       = (Inr False, st1\<lparr>request_bucket := rb, token_bucket := tb\<rparr>, c3)
   \<and> tokens (request_bucket st) = FloatVal (Fin (of_int (capacity (request_bucket st))))
   \<and> tokens (request_bucket st1) = IntVal (capacity (request_bucket st))
   \<and> tokens rb = IntVal (capacity (request_bucket st) - 1)
   \<and> \<not> pynum_ge_int (tokens tb) buf"
proof -
  let ?c = "2 ## 2 ## 2 ## 2 ## sconst 0"
  let ?st = "groq_at_0\<lparr>token_bucket := \<lparr>capacity = 8000, refill_rate = Fin 1000,
                                          tokens = FloatVal (Fin 0), last_refill = 0\<rparr>\<rparr>"
  let ?rb1 = "\<lparr>capacity = 5, refill_rate = Fin (1 / 2), tokens = IntVal 5, last_refill = 2\<rparr>"
  let ?tb1 = "\<lparr>capacity = 8000, refill_rate = Fin 1000, tokens = FloatVal (Fin 2000),
               last_refill = 2\<rparr>"
  let ?st1 = "groq_at_0\<lparr>request_bucket := ?rb1, token_bucket := ?tb1\<rparr>"
  let ?rb = "\<lparr>capacity = 5, refill_rate = Fin (1 / 2), tokens = IntVal 4, last_refill = 2\<rparr>"
  let ?tb = "\<lparr>capacity = 8000, refill_rate = Fin 1000, tokens = FloatVal (Fin 0),
              last_refill = 0\<rparr>"
  have check: "can_process_request ?c ''abcd'' 0 ?st
                 = (Inr (Allowed 31 34), ?st1, 2 ## sconst 0)"
    by (simp add: limiter_defs limiter_consts)
  have first: "consume (2 ## sconst 0) 1 (request_bucket ?st1) = (Inr True, ?rb, sconst 0)"
    by (simp add: limiter_defs limiter_consts)
  have second: "consume (sconst 0) 34 (token_bucket ?st1) = (Inr False, ?tb, sconst 0)"
    by (simp add: limiter_defs limiter_consts)
  from acquire_tokens_after_allowed_check [OF check first second]
  have whole: "acquire_tokens ?c ''abcd'' 0 ?st
                 = (Inr False, ?st1\<lparr>request_bucket := ?rb, token_bucket := ?tb\<rparr>, sconst 0)"
    by simp
  have before:
    "tokens (request_bucket ?st) = FloatVal (Fin (of_int (capacity (request_bucket ?st))))"
    by (simp add: groq_at_0_def)
  have checked: "tokens (request_bucket ?st1) = IntVal (capacity (request_bucket ?st))"
    by (simp add: groq_at_0_def)
  have after: "tokens ?rb = IntVal (capacity (request_bucket ?st) - 1)"
    by (simp add: groq_at_0_def)
  have lacks: "\<not> pynum_ge_int (tokens ?tb) 34" by simp
  from check first second whole before checked after lacks show ?thesis by blast
qed

section \<open>Properties of the schedule validator\<close>

lemma EVERY_N_HOURS_is_no_member:
  "ScheduleType_getattr ''EVERY_N_HOURS'' = Inl (AttributeError ''EVERY_N_HOURS'')"
  by (simp add: ScheduleType_getattr_def ScheduleType_def)

lemma NONE_is_a_member: "ScheduleType_getattr ''NONE'' = Inr ''none''"
  by (simp add: ScheduleType_getattr_def ScheduleType_def)

text \<open>
  The request \<open>daily_request\<close> is well formed in the sense of the validator's rules: its
  time of day parses and lies in range, and \<open>daily\<close> is a value of the enumeration.
\<close>

lemma daily_request_time_is_valid:
  "validate_schedule_time (py_get daily_request ''schedule_time'') = Inr ()"
  by (simp add: daily_request_def py_get_def validate_schedule_time_def unpack_hour_minute_def
      int_of_str_def int_isspace_def is_digit_def hour_minute_in_range_def between_def Let_def)

text \<open>The messages of some requests that the validator refuses for their own sake.\<close>

lemma validate_schedule_time_messages:
  "validate_schedule_time (PStr ''9'')
     = Inl (InvalidScheduleDataException
              ''Invalid schedule_time format: not enough values to unpack (expected 2, got 1)'')"
  "validate_schedule_time (PStr ''9:00:00'')
     = Inl (InvalidScheduleDataException
              ''Invalid schedule_time format: too many values to unpack (expected 2)'')"
  "validate_schedule_time (PStr ''9:ab'')
     = Inl (InvalidScheduleDataException
              (''Invalid schedule_time format: invalid literal for int() with base 10: ''
               @ [CHR 0x27] @ ''ab'' @ [CHR 0x27]))"
  "validate_schedule_time (PStr (CHR 0x1C # ''9:00''))
     = Inl (InvalidScheduleDataException
              (''Invalid schedule_time format: invalid literal for int() with base 10: ''
               @ [CHR 0x27] @ [CHR 0x5C] @ ''x1c9'' @ [CHR 0x27]))"
  "validate_schedule_time (PStr ''24:00'')
     = Inl (InvalidScheduleDataException
              ''Invalid time format: hour must be 0-23, minute must be 0-59'')"
  "validate_schedule_time (PStr (CHR 0xA0 # ''9 : +5_9''))= Inr ()"
  "validate_schedule_time (PDict [(''hour'', PStr ''9'')])
     = Inl (TypeError ([CHR 0x27] @ ''<='' @ [CHR 0x27] @ '' not supported between instances of ''
                       @ [CHR 0x27] @ ''int'' @ [CHR 0x27] @ '' and ''
                       @ [CHR 0x27] @ ''str'' @ [CHR 0x27]))"
  by (simp_all add: validate_schedule_time_def unpack_hour_minute_def int_of_str_def
      int_isspace_def is_digit_def hour_minute_in_range_def between_def Let_def
      invalid_literal_def py_repr_str_def repr_quote_def repr_char_def is_printable_def)

lemma invalid_schedule_type_message:
  "validate_schedule_data tzs
     [''user_id'' \<mapsto> PStr ''u1'', ''total_chunks'' \<mapsto> PInt 3,
      ''schedule_type'' \<mapsto> PList [PInt (- 12), PStr ''a'', PNone, PDict [(''k'', PBool True)]]]
   = Inl (InvalidScheduleDataException
            (''Invalid schedule_type: [-12, '' @ [CHR 0x27] @ ''a'' @ [CHR 0x27]
             @ '', None, {'' @ [CHR 0x27] @ ''k'' @ [CHR 0x27] @ '': True}]''))"
  by (simp add: validate_schedule_data_def validate_schedule_data_body_def py_get_def
      ScheduleType_def py_str_def str_of_int_def str_of_nat.simps py_repr_str_def
      repr_quote_def repr_char_def is_printable_def Let_def)

lemma daily_is_a_schedule_type:
  "py_get daily_request ''schedule_type'' \<in> set (map (\<lambda>e. PStr (snd e)) ScheduleType)"
  by (simp add: daily_request_def py_get_def ScheduleType_def)

text \<open>
  C1. The claim is that a request with a non-empty subject id, a positive total chunk
  count, a schedule type other than none, a valid \<open>HH:MM\<close> time and a recognised timezone
  is returned normalised. The code fails on it: having passed every check up to the
  timezone and the time of day, line 53 reads \<^verbatim>\<open>ScheduleType.EVERY_N_HOURS\<close>, which the
  enumeration of \<^verbatim>\<open>models.py\<close> does not have; the \<^verbatim>\<open>AttributeError\<close> is caught by the outer
  \<^verbatim>\<open>except Exception\<close> and re-raised as \<^verbatim>\<open>InvalidScheduleDataException\<close>. This holds for
  every set of valid timezones that contains the request's zone.
\<close>

theorem validate_schedule_data_rejects_daily:
  "validate_schedule_data (insert ''Asia/Kolkata'' tzs) daily_request
     = Inl (InvalidScheduleDataException ''EVERY_N_HOURS'')"
proof -
  have tz: "validate_timezone (insert ''Asia/Kolkata'' tzs) daily_request = Inr daily_request"
    by (simp add: validate_timezone_def py_get_default_def daily_request_def)
  have body: "validate_schedule_data_body (insert ''Asia/Kolkata'' tzs) daily_request
                = Inl (AttributeError ''EVERY_N_HOURS'')"
    unfolding validate_schedule_data_body_def tz
    using daily_request_time_is_valid
    by (simp add: EVERY_N_HOURS_is_no_member NONE_is_a_member ScheduleType_def
        daily_request_def py_get_def)
  show ?thesis by (simp add: validate_schedule_data_def body)
qed

text \<open>
  The same defect for every request: the validator returns a result only on the
  short-circuit for the schedule type \<open>none\<close>.
\<close>

lemma validate_schedule_data_succeeds_only_for_none:
  assumes "validate_schedule_data tzs user_data = Inr cleaned"
  shows "py_get user_data ''schedule_type'' = PStr ''none'' \<and> cleaned = user_data"
  using assms
  by (auto simp add: validate_schedule_data_def validate_schedule_data_body_def
      EVERY_N_HOURS_is_no_member NONE_is_a_member Let_def
      split: sum.splits if_splits)

section \<open>Properties of the text segmenter\<close>

lemma search_range_bounds:
  "i \<in> set (search_range end_pos search_start) \<Longrightarrow> search_start < i \<and> i \<le> end_pos"
  by (auto simp add: search_range_def)

text \<open>With a positive \<^verbatim>\<open>max_chars\<close> every pass of the loop moves \<^verbatim>\<open>current_pos\<close> forward.\<close>

lemma find_end_pos_progress:
  assumes "0 < max_chars" "current_pos < length body"
  shows "current_pos < find_end_pos body max_chars current_pos"
proof (cases "min (current_pos + max_chars) (length body) < length body")
  case False
  with assms show ?thesis by (simp add: find_end_pos_def)
next
  case True
  define end_pos where "end_pos = min (current_pos + max_chars) (length body)"
  define search_start
    where "search_start = max (current_pos + max_chars * 4 div 5) (current_pos + 100)"
  have above: "current_pos < i" if "i \<in> set (search_range end_pos search_start)" for i
    using search_range_bounds [OF that] by (simp add: search_start_def)
  have first_loop: "current_pos < i"
    if "find (sentence_end_at body) (search_range end_pos search_start) = Some i" for i
    using that above by (auto simp add: find_Some_iff)
  have second_loop: "current_pos < i"
    if "find (break_char_at body) (search_range end_pos search_start) = Some i" for i
    using that above by (auto simp add: find_Some_iff)
  have window: "current_pos < end_pos" using assms by (simp add: end_pos_def)
  show ?thesis
    using True first_loop second_loop window
    by (auto simp add: find_end_pos_def Let_def end_pos_def [symmetric]
        search_start_def [symmetric] split: option.splits dest: less_SucI)
qed

text \<open>So the segmenter returns for every text whenever \<^verbatim>\<open>max_chars\<close> is positive.\<close>

lemma chunk_loop_returns:
  assumes "0 < max_chars"
  shows "\<exists>r. chunk_loop body max_chars current_pos acc = Some r"
  using assms
proof (induct body max_chars current_pos acc rule: chunk_loop.induct)
  case (1 body max_chars current_pos acc)
  show ?case
  proof (cases "current_pos < length body")
    case False
    then show ?thesis by (subst chunk_loop.simps) simp
  next
    case True
    from find_end_pos_progress [OF "1.prems" True]
    have prog: "\<not> find_end_pos body max_chars current_pos \<le> current_pos" by simp
    from "1.hyps" [OF True prog "1.prems"] True prog
    show ?thesis by (subst chunk_loop.simps) simp
  qed
qed

lemma simple_chunk_text_returns:
  assumes "0 < max_chars"
  shows "\<exists>r. simple_chunk_text body max_chars = Some r"
  using assms chunk_loop_returns [of "nat max_chars" body 0 "[]"]
  by (simp add: simple_chunk_text_def)

text \<open>
  How far a chunk can exceed \<^verbatim>\<open>max_chars\<close>: the cut never lies more than one character
  behind the window, so no chunk has more than \<^verbatim>\<open>max_chars + 1\<close> characters.
\<close>

lemma find_end_pos_upper:
  "find_end_pos body max_chars current_pos \<le> current_pos + max_chars + 1"
proof -
  define end_pos where "end_pos = min (current_pos + max_chars) (length body)"
  define search_start
    where "search_start = max (current_pos + max_chars * 4 div 5) (current_pos + 100)"
  have window: "end_pos \<le> current_pos + max_chars" by (simp add: end_pos_def)
  have first_loop: "i \<le> end_pos"
    if "find (sentence_end_at body) (search_range end_pos search_start) = Some i" for i
    using that search_range_bounds [of i end_pos search_start]
    by (auto simp add: find_Some_iff)
  have second_loop: "i \<le> end_pos"
    if "find (break_char_at body) (search_range end_pos search_start) = Some i" for i
    using that search_range_bounds [of i end_pos search_start]
    by (auto simp add: find_Some_iff)
  show ?thesis
    using window first_loop second_loop
    by (auto simp add: find_end_pos_def Let_def end_pos_def [symmetric]
        search_start_def [symmetric] split: option.splits dest: le_trans)
qed

lemma length_strip: "length (strip s) \<le> length s"
proof -
  have "length (dropWhile py_isspace (rev (dropWhile py_isspace s)))
          \<le> length (rev (dropWhile py_isspace s))"
    by (rule length_dropWhile_le)
  also have "\<dots> \<le> length s" by (simp add: length_dropWhile_le)
  finally show ?thesis by (simp add: strip_def)
qed

lemma chunk_loop_bound:
  assumes "chunk_loop body max_chars current_pos acc = Some r"
    and "\<forall>c\<in>set acc. length c \<le> max_chars + 1"
  shows "\<forall>c\<in>set r. length c \<le> max_chars + 1"
  using assms
proof (induct body max_chars current_pos acc rule: chunk_loop.induct)
  case (1 body max_chars current_pos acc)
  show ?case
  proof (cases "current_pos < length body")
    case False
    with "1.prems" show ?thesis by (subst (asm) chunk_loop.simps) simp
  next
    case True
    let ?e = "find_end_pos body max_chars current_pos"
    let ?chunk = "strip (slice current_pos ?e body)"
    let ?acc = "if ?chunk \<noteq> [] then acc @ [?chunk] else acc"
    from "1.prems"(1) True have prog: "\<not> ?e \<le> current_pos"
      by (subst (asm) chunk_loop.simps) (simp split: if_splits)
    from "1.prems"(1) True prog have rec: "chunk_loop body max_chars ?e ?acc = Some r"
      by (subst (asm) chunk_loop.simps) simp
    have "length ?chunk \<le> length (slice current_pos ?e body)" by (rule length_strip)
    also have "\<dots> \<le> ?e - current_pos" by (simp add: slice_def)
    also have "\<dots> \<le> max_chars + 1" using find_end_pos_upper [of body max_chars current_pos] by simp
    finally have "\<forall>c\<in>set ?acc. length c \<le> max_chars + 1"
      using "1.prems"(2) by simp
    from "1.hyps" [OF True prog rec this] show ?thesis .
  qed
qed

lemma simple_chunk_text_bound:
  assumes "simple_chunk_text body max_chars = Some r"
  shows "\<forall>c\<in>set r. int (length c) \<le> max_chars + 1"
proof (cases "int (length body) \<le> max_chars")
  case True
  with assms show ?thesis by (auto simp add: simple_chunk_text_def)
next
  case False
  show ?thesis
  proof (cases "max_chars < 0")
    case True
    with assms False show ?thesis by (auto simp add: simple_chunk_text_def split: if_splits)
  next
    case nonneg: False
    with assms \<open>\<not> int (length body) \<le> max_chars\<close>
    have "chunk_loop body (nat max_chars) 0 [] = Some r"
      by (simp add: simple_chunk_text_def)
    from chunk_loop_bound [OF this] have "\<forall>c\<in>set r. length c \<le> nat max_chars + 1" by simp
    with nonneg show ?thesis by auto
  qed
qed

lemma length_full_stop_text: "length full_stop_text = 104"
  by (simp add: full_stop_text_def)

lemma find_end_pos_full_stop_text_0: "find_end_pos full_stop_text 101 0 = 102"
  by (simp add: find_end_pos_def length_full_stop_text search_range_def sentence_end_at_def
      break_char_at_def slice_def full_stop_text_def)

lemma find_end_pos_full_stop_text_102: "find_end_pos full_stop_text 101 102 = 104"
  by (simp add: find_end_pos_def length_full_stop_text)

lemma first_chunk_of_full_stop_text: "strip (slice 0 102 full_stop_text) = full_stop_chunk"
  by (simp add: slice_def strip_def py_isspace_def full_stop_text_def full_stop_chunk_def)

lemma second_chunk_of_full_stop_text: "strip (slice 102 104 full_stop_text) = ''cd''"
  by (simp add: slice_def strip_def py_isspace_def full_stop_text_def)

text \<open>
  C6. The claim is that for a text longer than \<^verbatim>\<open>max_chars\<close> no chunk exceeds \<^verbatim>\<open>max_chars\<close>
  unless it holds an unbreakable run longer than \<^verbatim>\<open>max_chars\<close>. The code breaks it by one
  character. For the 104-character text \<open>full_stop_text\<close> and \<^verbatim>\<open>max_chars = 101\<close> the
  window of the first pass ends at position 101; the first loop finds no sentence end at
  101, and the second loop tests \<^verbatim>\<open>text[101]\<close>, the first character behind the window.
  It is a full stop, so the cut is set to 102 and the chunk has 102 characters, while its
  longest unbreakable run has 2.
\<close>

theorem simple_chunk_text_exceeds_max_chars:
  "simple_chunk_text full_stop_text 101 = Some [full_stop_chunk, ''cd'']
   \<and> int (length full_stop_text) > 101
   \<and> length full_stop_chunk = 102
   \<and> longest_unbreakable_run full_stop_chunk = 2"
proof -
  have "full_stop_chunk \<noteq> []" by (simp add: full_stop_chunk_def)
  moreover
  have "chunk_loop full_stop_text 101 104 [full_stop_chunk, ''cd'']
          = Some [full_stop_chunk, ''cd'']"
    by (subst chunk_loop.simps) (simp add: length_full_stop_text)
  then have "chunk_loop full_stop_text 101 102 [full_stop_chunk]
               = Some [full_stop_chunk, ''cd'']"
    by (subst chunk_loop.simps)
       (simp add: length_full_stop_text find_end_pos_full_stop_text_102
          second_chunk_of_full_stop_text)
  ultimately have "chunk_loop full_stop_text 101 0 [] = Some [full_stop_chunk, ''cd'']"
    by (subst chunk_loop.simps)
       (simp add: length_full_stop_text find_end_pos_full_stop_text_0
          first_chunk_of_full_stop_text)
  then have "simple_chunk_text full_stop_text 101 = Some [full_stop_chunk, ''cd'']"
    by (simp add: simple_chunk_text_def length_full_stop_text)
  moreover have "length full_stop_chunk = 102"
    by (simp add: full_stop_chunk_def)
  moreover have "longest_unbreakable_run full_stop_chunk = 2"
    by (simp add: full_stop_chunk_def longest_unbreakable_run_def)
  ultimately show ?thesis by (simp add: length_full_stop_text)
qed

section \<open>Properties of the periodic delivery manager\<close>

text \<open>
  \<^verbatim>\<open>cleanup_user_schedule\<close> returns \<^verbatim>\<open>False\<close> only through its \<^verbatim>\<open>except\<close> clause, that is,
  only when the store does not answer.
\<close>

lemma cleanup_user_schedule_true_iff_online:
  "fst (cleanup_user_schedule now user_id w) = redis_online w"
  by (simp add: cleanup_user_schedule_def Let_def)

text \<open>
  What the cancel path does when the store answers: it deletes the progress state and
  enqueues nothing; and to an existing schedule: the metadata is marked completed, the
  periodic job it names is removed, and no other job is touched.
\<close>

lemma cleanup_user_schedule_effects:
  assumes "redis_online w"
  shows "user_progress (snd (cleanup_user_schedule now user_id w)) user_id = None"
    and "task_queue (snd (cleanup_user_schedule now user_id w)) = task_queue w"
  using assms
  by (auto simp add: cleanup_user_schedule_def Let_def split: option.splits)

lemma cleanup_user_schedule_cancels:
  assumes "redis_online w" and "user_schedule w user_id = Some schedule_data"
  shows "user_schedule (snd (cleanup_user_schedule now user_id w)) user_id
           = Some (schedule_data\<lparr>sm_status := ''completed'', sm_completed_at := Some now\<rparr>)"
    and "sm_task_name schedule_data \<noteq> [] \<Longrightarrow>
           beat_schedule (snd (cleanup_user_schedule now user_id w)) (sm_task_name schedule_data)
             = None"
    and "name \<noteq> sm_task_name schedule_data \<Longrightarrow>
           beat_schedule (snd (cleanup_user_schedule now user_id w)) name = beat_schedule w name"
  using assms by (auto simp add: cleanup_user_schedule_def Let_def)

text \<open>
  C5. The claim is that \<^verbatim>\<open>cleanup_user_schedule\<close> returns false for a subject without
  schedule metadata, and the cancel endpoint of \<^verbatim>\<open>main.py\<close> answers 404 "No active
  schedule found for user" on a false result. The code returns \<^verbatim>\<open>True\<close>: with no
  metadata it skips the \<^verbatim>\<open>if schedule_data:\<close> block, deletes the progress key and falls
  through to \<^verbatim>\<open>return True\<close>. Here: a reachable store that holds nothing.
\<close>

theorem cleanup_user_schedule_without_schedule_returns_true:
  "user_schedule empty_world ''u1'' = None
   \<and> cleanup_user_schedule ''2026-01-01T09:00:00+05:30'' ''u1'' empty_world = (True, empty_world)"
  by (simp add: cleanup_user_schedule_def empty_world_def)

lemma py_slice_nonneg:
  assumes "0 \<le> a" "a \<le> b" "b \<le> int (length xs)"
  shows "py_slice a b xs = slice (nat a) (nat b) xs"
  using assms by (simp add: py_slice_def slice_def Let_def nat_diff_distrib)

lemma length_slice: "b \<le> length xs \<Longrightarrow> length (slice a b xs) = b - a"
  by (simp add: slice_def)

lemma py_slice_empty_iff:
  assumes "0 \<le> a" "0 \<le> b" "b \<le> int (length xs)"
  shows "py_slice a b xs = [] \<longleftrightarrow> b \<le> a"
  using assms by (auto simp add: py_slice_def Let_def)

text \<open>
  C7. A firing that finds the subject's chunk data, with the progress state
  \<open>(cur, cnt)\<close> and a batch size that are not negative (every registered firing has a
  batch size from 1 to 10, and every stored index is a previous \<open>stop\<close>), computes
  \<open>stop = min(cur + chunks_per_delivery, total_chunks)\<close>. If the slice from \<open>cur\<close> to
  \<open>stop\<close> is empty, it returns the completion status with the processed count \<open>cnt\<close> and
  leaves the world as the cancel path leaves it, which means: the progress state of the
  subject is deleted; if schedule metadata is stored for the subject, its status becomes
  \<^verbatim>\<open>completed\<close> with the time of completion, and the periodic job named in it is removed
  from the beat schedule; no job of another name is touched and nothing is enqueued.
  Otherwise it enqueues \<^verbatim>\<open>generate_insights\<close> for exactly the chunks from \<open>cur\<close> up to
  \<open>stop\<close>, and persists the progress state with the current index \<open>stop\<close> and the
  processed count raised by the size of the slice, \<open>stop - cur\<close>.
\<close>

theorem process_scheduled_chunks_batch:
  assumes online: "redis_online w"
    and data: "user_chunks w user_id = Some user_data" "ud_chunks user_data \<noteq> []"
    and state: "get_user_processing_state user_id start_index w = (cur, cnt)"
    and nonneg: "0 \<le> cur" "0 \<le> chunks_per_delivery"
  defines "stop \<equiv> min (cur + chunks_per_delivery) (int (length (ud_chunks user_data)))"
  shows "(stop \<le> cur \<longrightarrow>
            process_scheduled_chunks now tid user_id chunks_per_delivery start_index w
              = (Inr (Completed cnt), snd (cleanup_user_schedule now user_id w))
          \<and> user_progress (snd (process_scheduled_chunks now tid user_id chunks_per_delivery
                                  start_index w)) user_id = None
          \<and> (\<forall>schedule_data. user_schedule w user_id = Some schedule_data \<longrightarrow>
                user_schedule (snd (process_scheduled_chunks now tid user_id chunks_per_delivery
                                      start_index w)) user_id
                  = Some (schedule_data\<lparr>sm_status := ''completed'', sm_completed_at := Some now\<rparr>)
              \<and> (sm_task_name schedule_data \<noteq> [] \<longrightarrow>
                   beat_schedule (snd (process_scheduled_chunks now tid user_id
                                         chunks_per_delivery start_index w))
                     (sm_task_name schedule_data) = None)
              \<and> (\<forall>name. name \<noteq> sm_task_name schedule_data \<longrightarrow>
                   beat_schedule (snd (process_scheduled_chunks now tid user_id
                                         chunks_per_delivery start_index w)) name
                     = beat_schedule w name))
          \<and> task_queue (snd (process_scheduled_chunks now tid user_id chunks_per_delivery
                               start_index w)) = task_queue w)
       \<and> (cur < stop \<longrightarrow>
            fst (process_scheduled_chunks now tid user_id chunks_per_delivery start_index w)
              = Inr (BatchQueued (stop - cur) tid cur (stop - 1) (cnt + (stop - cur))
                       (int (length (ud_chunks user_data)) - stop))
          \<and> task_queue (snd (process_scheduled_chunks now tid user_id chunks_per_delivery
                               start_index w))
              = task_queue w
                @ [GenerateInsights user_id (slice (nat cur) (nat stop) (ud_chunks user_data))]
          \<and> user_progress (snd (process_scheduled_chunks now tid user_id chunks_per_delivery
                                  start_index w)) user_id
              = Some \<lparr>p_current_index = stop, p_processed_count = cnt + (stop - cur),
                      p_last_processed_at = now, p_last_task_id = tid\<rparr>)"
proof -
  let ?all = "ud_chunks user_data"
  let ?run = "process_scheduled_chunks now tid user_id chunks_per_delivery start_index w"
  obtain c cs where cs: "?all = c # cs"
    using data(2) by (cases ?all) auto
  have found: "get_user_chunks user_id w = Some (c # cs)"
    using online data(1) cs by (simp add: get_user_chunks_def)
  have stop_bounds: "0 \<le> stop" "stop \<le> int (length ?all)"
    using nonneg by (simp_all add: stop_def)
  have empty_iff: "py_slice cur stop ?all = [] \<longleftrightarrow> stop \<le> cur"
    using py_slice_empty_iff [OF nonneg(1) stop_bounds] .
  have run: "?run =
     (if py_slice cur stop ?all = []
      then (Inr (Completed cnt), snd (cleanup_user_schedule now user_id w))
      else (Inr (BatchQueued (int (length (py_slice cur stop ?all))) tid cur (stop - 1)
                  (cnt + int (length (py_slice cur stop ?all)))
                  (int (length ?all) - stop)),
            snd (update_user_progress now user_id stop
                   (cnt + int (length (py_slice cur stop ?all))) tid
                   (w\<lparr>task_queue := task_queue w
                        @ [GenerateInsights user_id (py_slice cur stop ?all)]\<rparr>))))"
    using online data state
    by (simp add: process_scheduled_chunks_def found record_schedule_execution_def Let_def
        stop_def)
  show ?thesis
  proof (intro conjI impI allI)
    assume "stop \<le> cur"
    then show "?run = (Inr (Completed cnt), snd (cleanup_user_schedule now user_id w))"
      using run empty_iff by simp
  next
    assume "stop \<le> cur"
    then have "snd ?run = snd (cleanup_user_schedule now user_id w)"
      using run empty_iff by simp
    then show "user_progress (snd ?run) user_id = None"
      using cleanup_user_schedule_effects(1) [OF online] by simp
  next
    fix schedule_data
    assume "stop \<le> cur" and stored: "user_schedule w user_id = Some schedule_data"
    then have "snd ?run = snd (cleanup_user_schedule now user_id w)"
      using run empty_iff by simp
    then show "user_schedule (snd ?run) user_id
                 = Some (schedule_data\<lparr>sm_status := ''completed'', sm_completed_at := Some now\<rparr>)"
      using cleanup_user_schedule_cancels [OF online stored] by simp
  next
    fix schedule_data
    assume "stop \<le> cur" and stored: "user_schedule w user_id = Some schedule_data"
      and named: "sm_task_name schedule_data \<noteq> []"
    then have "snd ?run = snd (cleanup_user_schedule now user_id w)"
      using run empty_iff by simp
    then show "beat_schedule (snd ?run) (sm_task_name schedule_data) = None"
      using cleanup_user_schedule_cancels [OF online stored] named by simp
  next
    fix schedule_data name
    assume "stop \<le> cur" and stored: "user_schedule w user_id = Some schedule_data"
      and other: "name \<noteq> sm_task_name schedule_data"
    then have "snd ?run = snd (cleanup_user_schedule now user_id w)"
      using run empty_iff by simp
    then show "beat_schedule (snd ?run) name = beat_schedule w name"
      using cleanup_user_schedule_cancels [OF online stored] other by simp
  next
    assume "stop \<le> cur"
    then have "snd ?run = snd (cleanup_user_schedule now user_id w)"
      using run empty_iff by simp
    then show "task_queue (snd ?run) = task_queue w"
      using cleanup_user_schedule_effects(2) [OF online] by simp
  next
    assume lt: "cur < stop"
    then have ne: "py_slice cur stop ?all \<noteq> []" using empty_iff by simp
    have sl: "py_slice cur stop ?all = slice (nat cur) (nat stop) ?all"
      using py_slice_nonneg [of cur stop] nonneg(1) lt stop_bounds by simp
    have len: "int (length (slice (nat cur) (nat stop) ?all)) = stop - cur"
      using length_slice [of "nat stop" ?all "nat cur"] nonneg(1) lt stop_bounds by simp
    show "fst ?run = Inr (BatchQueued (stop - cur) tid cur (stop - 1) (cnt + (stop - cur))
                            (int (length ?all) - stop))"
      using run ne sl len by simp
    show "task_queue (snd ?run)
            = task_queue w @ [GenerateInsights user_id (slice (nat cur) (nat stop) ?all)]"
      using run ne sl online by (simp add: update_user_progress_def)
    show "user_progress (snd ?run) user_id
            = Some \<lparr>p_current_index = stop, p_processed_count = cnt + (stop - cur),
                    p_last_processed_at = now, p_last_task_id = tid\<rparr>"
      using run ne sl len online by (simp add: update_user_progress_def)
  qed
qed

lemma three_chunk_world_online: "redis_online three_chunk_world"
  by (simp add: three_chunk_world_def empty_world_def)

text \<open>
  The first firing for the subject of \<open>three_chunk_world\<close> queues chunks 1 and 2; the
  second finds nothing left, reports completion, deletes the progress state, marks the
  schedule completed and removes the periodic job.
\<close>

theorem process_scheduled_chunks_batch_witness:
  "fst (process_scheduled_chunks ''2026-01-01T09:00:00+05:30'' ''task-1'' ''u1'' 2 1
          three_chunk_world)
     = Inr (BatchQueued 2 ''task-1'' 1 2 2 0)
   \<and> task_queue (snd (process_scheduled_chunks ''2026-01-01T09:00:00+05:30'' ''task-1'' ''u1'' 2 1
                        three_chunk_world))
     = [GenerateInsights ''u1'' [chunk_b, chunk_c]]
   \<and> user_progress (snd (process_scheduled_chunks ''2026-01-01T09:00:00+05:30'' ''task-1'' ''u1''
                           2 1 three_chunk_world)) ''u1''
     = Some \<lparr>p_current_index = 3, p_processed_count = 2,
             p_last_processed_at = ''2026-01-01T09:00:00+05:30'', p_last_task_id = ''task-1''\<rparr>
   \<and> process_scheduled_chunks ''2026-01-02T09:00:00+05:30'' ''task-2'' ''u1'' 2 1
        three_chunk_world_fired
     = (Inr (Completed 2),
        three_chunk_world
          \<lparr>user_schedule := [''u1'' \<mapsto> \<lparr>sm_task_name = ''process_user_chunks_u1'',
                                       sm_status = ''completed'',
                                       sm_completed_at = Some ''2026-01-02T09:00:00+05:30''\<rparr>],
           beat_schedule := Map.empty\<rparr>)
   \<and> user_progress (snd (process_scheduled_chunks ''2026-01-02T09:00:00+05:30'' ''task-2'' ''u1''
                           2 1 three_chunk_world_fired)) ''u1'' = None
   \<and> beat_schedule (snd (process_scheduled_chunks ''2026-01-02T09:00:00+05:30'' ''task-2'' ''u1''
                           2 1 three_chunk_world_fired)) ''process_user_chunks_u1'' = None"
proof -
  have data: "user_chunks three_chunk_world ''u1'' = Some reader_data"
    "user_chunks three_chunk_world_fired ''u1'' = Some reader_data"
    "ud_chunks reader_data \<noteq> []"
    by (simp_all add: three_chunk_world_fired_def three_chunk_world_def empty_world_def
        reader_data_def)
  have online: "redis_online three_chunk_world" "redis_online three_chunk_world_fired"
    by (simp_all add: three_chunk_world_fired_def three_chunk_world_online)
  have fresh: "get_user_processing_state ''u1'' 1 three_chunk_world = (1, 0)"
    by (simp add: get_user_processing_state_def three_chunk_world_def empty_world_def)
  have fired: "get_user_processing_state ''u1'' 1 three_chunk_world_fired = (3, 2)"
    by (simp add: get_user_processing_state_def three_chunk_world_fired_def
        three_chunk_world_online)
  have pos: "(0::int) \<le> 1" "(0::int) \<le> 2" "(0::int) \<le> 3" by simp_all
  have cancelled:
    "snd (cleanup_user_schedule ''2026-01-02T09:00:00+05:30'' ''u1'' three_chunk_world_fired)
       = three_chunk_world
          \<lparr>user_schedule := [''u1'' \<mapsto> \<lparr>sm_task_name = ''process_user_chunks_u1'',
                                       sm_status = ''completed'',
                                       sm_completed_at = Some ''2026-01-02T09:00:00+05:30''\<rparr>],
           beat_schedule := Map.empty\<rparr>"
    by (simp add: cleanup_user_schedule_def three_chunk_world_fired_def three_chunk_world_def
        empty_world_def Let_def)
  from process_scheduled_chunks_batch
         [OF online(1) data(1) data(3) fresh pos(1) pos(2),
          of "''2026-01-01T09:00:00+05:30''" "''task-1''"]
       process_scheduled_chunks_batch
         [OF online(2) data(2) data(3) fired pos(3) pos(2),
          of "''2026-01-02T09:00:00+05:30''" "''task-2''"]
       cancelled
  show ?thesis
    by (simp add: reader_data_def slice_def three_chunk_world_def empty_world_def)
qed

section \<open>Properties of the merge of insight records\<close>

lemma find_append_cases:
  "find P (xs @ ys) = (case find P xs of Some x \<Rightarrow> Some x | None \<Rightarrow> find P ys)"
  by (induction xs) auto

lemma dict_assign_all_Cons:
  "dict_assign_all (r # rs) m = dict_assign_all rs (AList.update (ir_chunk_index r) r m)"
  by (simp add: dict_assign_all_def)

text \<open>Looking a key up after a run of assignments gives the last record assigned to it.\<close>

lemma map_of_dict_assign_all:
  "map_of (dict_assign_all rs m) k =
     (case find (\<lambda>r. ir_chunk_index r = k) (rev rs) of
        Some r \<Rightarrow> Some r
      | None \<Rightarrow> map_of m k)"
proof (induction rs arbitrary: m)
  case Nil
  then show ?case by (simp add: dict_assign_all_def)
next
  case (Cons r rs)
  then show ?case
    by (simp add: dict_assign_all_Cons find_append_cases update_conv' split: option.splits)
qed

lemma keys_dict_assign_all:
  "fst ` set (dict_assign_all rs m) = ir_chunk_index ` set rs \<union> fst ` set m"
proof (induction rs arbitrary: m)
  case Nil
  then show ?case by (simp add: dict_assign_all_def)
next
  case (Cons r rs)
  then show ?case by (simp add: dict_assign_all_Cons dom_update)
qed

lemma distinct_dict_assign_all:
  "distinct (map fst m) \<Longrightarrow> distinct (map fst (dict_assign_all rs m))"
proof (induction rs arbitrary: m)
  case Nil
  then show ?case by (simp add: dict_assign_all_def)
next
  case (Cons r rs)
  then show ?case by (simp add: dict_assign_all_Cons distinct_update)
qed

lemma dict_assign_all_append:
  "dict_assign_all ys (dict_assign_all xs m) = dict_assign_all (xs @ ys) m"
  by (simp add: dict_assign_all_def)

lemma map_map_filter_keys:
  assumes "\<And>k. k \<in> set ks \<Longrightarrow> \<exists>r. f k = Some r \<and> g r = k"
  shows "map g (List.map_filter f ks) = ks"
  using assms
proof (induction ks)
  case Nil
  then show ?case by simp
next
  case (Cons k ks)
  from Cons.prems [of k] obtain r where "f k = Some r" "g r = k" by auto
  moreover have "map g (List.map_filter f ks) = ks"
    using Cons.IH Cons.prems by simp
  ultimately show ?case by simp
qed

lemma set_map_filter_iff:
  "r \<in> set (List.map_filter f ks) \<longleftrightarrow> (\<exists>k\<in>set ks. f k = Some r)"
  by (induction ks) (auto split: option.splits)

text \<open>The two stages of the merge are one run of assignments over the stored list
  followed by the new results.\<close>

lemma merge_insights_as_one_run:
  "merge_insights existing rs =
     List.map_filter (map_of (dict_assign_all (stored_list existing @ rs) []))
       (sort (map fst (dict_assign_all (stored_list existing @ rs) [])))"
proof -
  have "(case existing of
           Some xs \<Rightarrow> if xs \<noteq> [] then dict_assign_all xs [] else []
         | None \<Rightarrow> [])
          = dict_assign_all (stored_list existing) []"
    by (auto simp add: stored_list_def dict_assign_all_def split: option.splits)
  then show ?thesis
    by (simp add: merge_insights_def Let_def dict_assign_all_append)
qed

lemma merge_insights_properties:
  fixes existing rs
  defines "final \<equiv> merge_insights existing rs"
  defines "everything \<equiv> stored_list existing @ rs"
  shows "sorted (map ir_chunk_index final)"
    and "distinct (map ir_chunk_index final)"
    and "set (map ir_chunk_index final) = ir_chunk_index ` set everything"
    and "\<forall>r\<in>set final.
           find (\<lambda>x. ir_chunk_index x = ir_chunk_index r) (rev everything) = Some r"
proof -
  let ?m = "dict_assign_all everything []"
  let ?ks = "sort (map fst ?m)"
  have final: "final = List.map_filter (map_of ?m) ?ks"
    by (simp add: final_def everything_def merge_insights_as_one_run)
  have lookup: "map_of ?m k = find (\<lambda>r. ir_chunk_index r = k) (rev everything)" for k
    by (simp add: map_of_dict_assign_all split: option.splits)
  have keys: "set ?ks = ir_chunk_index ` set everything"
    using keys_dict_assign_all [of everything "[]"] by simp
  have dist: "distinct ?ks"
    using distinct_dict_assign_all [of "[]" everything] by simp
  have defined: "\<exists>r. map_of ?m k = Some r \<and> ir_chunk_index r = k" if "k \<in> set ?ks" for k
  proof -
    from that have "k \<in> fst ` set ?m" by simp
    then obtain r where r: "map_of ?m k = Some r"
      by (metis domD dom_map_of_conv_image_fst)
    then have "find (\<lambda>r. ir_chunk_index r = k) (rev everything) = Some r"
      by (simp add: lookup)
    then have "ir_chunk_index r = k" by (auto simp add: find_Some_iff)
    with r show ?thesis by simp
  qed
  have idx: "map ir_chunk_index final = ?ks"
    unfolding final using defined by (rule map_map_filter_keys)
  show "sorted (map ir_chunk_index final)" by (simp add: idx)
  show "distinct (map ir_chunk_index final)" using dist by (simp add: idx)
  show "set (map ir_chunk_index final) = ir_chunk_index ` set everything"
    using keys by (simp add: idx)
  show "\<forall>r\<in>set final.
           find (\<lambda>x. ir_chunk_index x = ir_chunk_index r) (rev everything) = Some r"
  proof
    fix r assume "r \<in> set final"
    then obtain k where k: "k \<in> set ?ks" "map_of ?m k = Some r"
      unfolding final by (auto simp add: set_map_filter_iff)
    from defined [OF k(1)] k(2) have "ir_chunk_index r = k" by simp
    with k(2) show "find (\<lambda>x. ir_chunk_index x = ir_chunk_index r) (rev everything) = Some r"
      by (simp add: lookup)
  qed
qed

text \<open>
  C8. After the merge that \<^verbatim>\<open>generate_insights\<close> performs, the list persisted for the
  subject is ordered by chunk index and holds at most one record per chunk index; its
  indices are those of the list stored before and of the new results; and each record in
  it is the latest write for its index: the last record with that index among the stored
  list followed by the new results, so a later result replaces an earlier one.
\<close>

theorem generate_insights_merged_set:
  assumes "redis_online w"
  shows "\<exists>final.
           user_insights (snd (generate_insights task_id userId insights_results w)) userId
             = Some final
         \<and> sorted (map ir_chunk_index final)
         \<and> distinct (map ir_chunk_index final)
         \<and> set (map ir_chunk_index final)
             = ir_chunk_index ` set (stored_list (user_insights w userId) @ insights_results)
         \<and> (\<forall>r\<in>set final.
               find (\<lambda>x. ir_chunk_index x = ir_chunk_index r)
                 (rev (stored_list (user_insights w userId) @ insights_results)) = Some r)"
proof -
  have "user_insights (snd (generate_insights task_id userId insights_results w)) userId
          = Some (merge_insights (user_insights w userId) insights_results)"
    using assms by (simp add: generate_insights_def Let_def)
  with merge_insights_properties [of "user_insights w userId" insights_results]
  show ?thesis by blast
qed

theorem generate_insights_merged_set_witness:
  "redis_online insights_world
   \<and> user_insights (snd (generate_insights ''task-2'' ''u1'' [insight_two, insight_one]
                           insights_world)) ''u1''
       = Some [insight_zero, insight_one, insight_two]
   \<and> (\<exists>final.
         user_insights (snd (generate_insights ''task-2'' ''u1'' [insight_two, insight_one]
                               insights_world)) ''u1''
           = Some final
       \<and> sorted (map ir_chunk_index final)
       \<and> distinct (map ir_chunk_index final)
       \<and> set (map ir_chunk_index final)
           = ir_chunk_index ` set (stored_list (user_insights insights_world ''u1'')
                                    @ [insight_two, insight_one])
       \<and> (\<forall>r\<in>set final.
             find (\<lambda>x. ir_chunk_index x = ir_chunk_index r)
               (rev (stored_list (user_insights insights_world ''u1'')
                     @ [insight_two, insight_one])) = Some r))"
proof -
  have online: "redis_online insights_world"
    by (simp add: insights_world_def three_chunk_world_online)
  have stored: "user_insights (snd (generate_insights ''task-2'' ''u1'' [insight_two, insight_one]
                                      insights_world)) ''u1''
                  = Some [insight_zero, insight_one, insight_two]"
    by (simp add: generate_insights_def three_chunk_world_online Let_def merge_insights_def
        dict_assign_all_def insights_world_def insight_zero_def insight_one_refused_def insight_one_def
        insight_two_def)
  from generate_insights_merged_set [OF online, of "''task-2''" "''u1''" "[insight_two, insight_one]"]
       online stored
  show ?thesis by blast
qed

section \<open>Properties of the idempotent notification\<close>

text \<open>
  What a call can do to the world: nothing; append one message to the outbox and write
  the marker, returning \<^verbatim>\<open>sent\<close>; or append one message and write no marker, asking for
  a retry, which happens exactly when the environment fails after the send.
\<close>

lemma send_email_chunk_cases:
  assumes "send_email_chunk sender smtp marker_write_ok user_id chunk_index w = (r, w')"
  shows "(r = Inr Sent \<and> smtp = SmtpAccepted \<and> marker_write_ok \<and> redis_online w
            \<and> (\<exists>mail. w' = w\<lparr>outbox := outbox w @ [mail],
                              email_sent := (email_sent w)((user_id, chunk_index) \<mapsto> ''1'')\<rparr>))
       \<or> ((\<exists>exc. r = Inr (Retry exc)) \<and> fails_after_send smtp marker_write_ok
            \<and> (\<exists>mail. w' = w\<lparr>outbox := outbox w @ [mail]\<rparr>))
       \<or> (r \<noteq> Inr Sent \<and> w' = w)"
  using assms
  by (cases smtp)
     (auto simp add: send_email_chunk_def Let_def split: if_splits option.splits)

lemma send_email_chunk_marked:
  assumes "redis_online w" and "email_sent w (user_id, chunk_index) = Some ''1''"
  shows "send_email_chunk sender smtp marker_write_ok user_id chunk_index w = (Inr AlreadySent, w)"
  using assms by (simp add: send_email_chunk_def)

text \<open>
  C2, as the specification states it, fails. The marker is written after the send, in
  the same \<^verbatim>\<open>try\<close> block, and every exception asks for a retry. Here the first call hands
  the message to the mail server, the marker write then fails, and the call asks for a
  retry; the second call finds no marker and sends the same message again: two calls for
  the same subject and chunk index, two messages.
\<close>

theorem send_email_chunk_twice_sends_twice:
  "outbox insights_world = []
   \<and> send_email_chunk ''noreply@example.org'' SmtpAccepted False ''u1'' 1 insights_world
       = (Inr (Retry (RedisError ''connection error'')),
          insights_world\<lparr>outbox := [mail_for_chunk_one]\<rparr>)
   \<and> send_email_chunk ''noreply@example.org'' SmtpAccepted True ''u1'' 1
        (insights_world\<lparr>outbox := [mail_for_chunk_one]\<rparr>)
       = (Inr Sent,
          insights_world\<lparr>outbox := [mail_for_chunk_one, mail_for_chunk_one],
                          email_sent := [(''u1'', 1) \<mapsto> ''1'']\<rparr>)"
  by (simp add: send_email_chunk_def Let_def py_index_def insight_or_error_def
      insights_world_def three_chunk_world_def empty_world_def reader_data_def
      chunk_a_def chunk_b_def chunk_c_def insight_zero_def insight_one_refused_def
      mail_for_chunk_one_def)

text \<open>
  C2, amended. Take two calls of \<^verbatim>\<open>send_email_chunk\<close> for the same subject and chunk
  index, one after the other, whatever the environment of each does.
  \<^item> The marker is written only after a send that succeeded: a call that does not return
    \<^verbatim>\<open>sent\<close> leaves every marker as it was, and a call that returns \<^verbatim>\<open>sent\<close> has handed
    exactly one message to the mail server and written the marker.
  \<^item> After a call that returned \<^verbatim>\<open>sent\<close>, the second call returns \<^verbatim>\<open>already_sent\<close> and
    changes nothing.
  \<^item> A call that neither returns \<^verbatim>\<open>sent\<close> nor fails after the send changes nothing.
  \<^item> So the two calls send at most one message, provided the first call does not fail
    after its send (by the SMTP session raising once the server has the message, or by
    the marker write failing); in any case each call sends at most one message.
  \<^item> In any later world that still answers and still holds the marker, a call returns
    \<^verbatim>\<open>already_sent\<close> and changes nothing.
\<close>

theorem send_email_chunk_marker_after_send:
  assumes first_call: "send_email_chunk sender smtp1 mw1 user_id chunk_index w = (r1, w1)"
    and second_call: "send_email_chunk sender smtp2 mw2 user_id chunk_index w1 = (r2, w2)"
  shows "(r1 \<noteq> Inr Sent \<longrightarrow> email_sent w1 = email_sent w)
       \<and> (r1 = Inr Sent \<longrightarrow>
            smtp1 = SmtpAccepted
          \<and> (\<exists>mail. outbox w1 = outbox w @ [mail])
          \<and> email_sent w1 = (email_sent w)((user_id, chunk_index) \<mapsto> ''1'')
          \<and> r2 = Inr AlreadySent \<and> w2 = w1)
       \<and> (r1 \<noteq> Inr Sent \<and> \<not> fails_after_send smtp1 mw1 \<longrightarrow> w1 = w)
       \<and> (\<not> fails_after_send smtp1 mw1 \<longrightarrow> length (outbox w2) \<le> length (outbox w) + 1)
       \<and> length (outbox w1) \<le> length (outbox w) + 1
       \<and> length (outbox w2) \<le> length (outbox w1) + 1
       \<and> (redis_online w' \<and> email_sent w' (user_id, chunk_index) = Some ''1'' \<longrightarrow>
            send_email_chunk sender smtp3 mw3 user_id chunk_index w' = (Inr AlreadySent, w'))"
proof -
  note c1 = send_email_chunk_cases [OF first_call]
  note c2 = send_email_chunk_cases [OF second_call]
  have sent: "smtp1 = SmtpAccepted
          \<and> (\<exists>mail. outbox w1 = outbox w @ [mail])
          \<and> email_sent w1 = (email_sent w)((user_id, chunk_index) \<mapsto> ''1'')
          \<and> r2 = Inr AlreadySent \<and> w2 = w1" if "r1 = Inr Sent"
  proof -
    from c1 that obtain mail where w1: "redis_online w" "smtp1 = SmtpAccepted"
      "w1 = w\<lparr>outbox := outbox w @ [mail],
              email_sent := (email_sent w)((user_id, chunk_index) \<mapsto> ''1'')\<rparr>"
      by auto
    then have "redis_online w1" "email_sent w1 (user_id, chunk_index) = Some ''1''"
      by simp_all
    from send_email_chunk_marked [OF this, of sender smtp2 mw2] second_call
    have "r2 = Inr AlreadySent" "w2 = w1" by simp_all
    with w1 show ?thesis by simp
  qed
  have unmarked: "email_sent w1 = email_sent w" if "r1 \<noteq> Inr Sent" using c1 that by auto
  have unsent: "w1 = w" if "r1 \<noteq> Inr Sent" "\<not> fails_after_send smtp1 mw1"
    using c1 that by auto
  have one: "length (outbox w1) \<le> length (outbox w) + 1" using c1 by auto
  have two: "length (outbox w2) \<le> length (outbox w1) + 1" using c2 by auto
  have bound: "length (outbox w2) \<le> length (outbox w) + 1" if "\<not> fails_after_send smtp1 mw1"
  proof (cases "r1 = Inr Sent")
    case True
    with sent one show ?thesis by auto
  next
    case False
    with unsent that have "w1 = w" by simp
    with two show ?thesis by simp
  qed
  show ?thesis
    using bound sent unmarked unsent one two
      send_email_chunk_marked [of w' user_id chunk_index sender smtp3 mw3]
    by blast
qed

theorem send_email_chunk_marker_after_send_witness:
  "send_email_chunk ''noreply@example.org'' SmtpAccepted True ''u1'' 1 insights_world
     = (Inr Sent,
        insights_world\<lparr>outbox := [mail_for_chunk_one],
                        email_sent := [(''u1'', 1) \<mapsto> ''1'']\<rparr>)
   \<and> \<not> fails_after_send SmtpAccepted True
   \<and> send_email_chunk ''noreply@example.org'' SmtpAccepted True ''u1'' 1
        (insights_world\<lparr>outbox := [mail_for_chunk_one],
                        email_sent := [(''u1'', 1) \<mapsto> ''1'']\<rparr>)
       = (Inr AlreadySent,
          insights_world\<lparr>outbox := [mail_for_chunk_one],
                          email_sent := [(''u1'', 1) \<mapsto> ''1'']\<rparr>)
   \<and> send_email_chunk ''noreply@example.org'' (SmtpRefused (SMTPException ''Connection refused''))
        True ''u1'' 1 insights_world
       = (Inr (Retry (SMTPException ''Connection refused'')), insights_world)"
proof -
  let ?w1 = "insights_world\<lparr>outbox := [mail_for_chunk_one],
                            email_sent := [(''u1'', 1) \<mapsto> ''1'']\<rparr>"
  have first_call:
    "send_email_chunk ''noreply@example.org'' SmtpAccepted True ''u1'' 1 insights_world
       = (Inr Sent, ?w1)"
    by (simp add: send_email_chunk_def Let_def py_index_def insight_or_error_def
        insights_world_def three_chunk_world_def empty_world_def reader_data_def
        chunk_a_def chunk_b_def chunk_c_def insight_zero_def insight_one_refused_def
        mail_for_chunk_one_def)
  obtain r2 w2 where second_call:
    "send_email_chunk ''noreply@example.org'' SmtpAccepted True ''u1'' 1 ?w1 = (r2, w2)"
    by (cases "send_email_chunk ''noreply@example.org'' SmtpAccepted True ''u1'' 1 ?w1") blast
  have refused:
    "send_email_chunk ''noreply@example.org'' (SmtpRefused (SMTPException ''Connection refused''))
        True ''u1'' 1 insights_world
       = (Inr (Retry (SMTPException ''Connection refused'')), insights_world)"
    by (simp add: send_email_chunk_def Let_def py_index_def insight_or_error_def
        insights_world_def three_chunk_world_def empty_world_def reader_data_def
        chunk_a_def chunk_b_def chunk_c_def insight_zero_def insight_one_refused_def)
  from send_email_chunk_marker_after_send [OF first_call second_call] second_call first_call
    refused
  show ?thesis by simp
qed

end
